theory Spec2Isabelle
  imports Main
begin

section \<open>Strings and values of the script\<close>

text \<open>
  A string of the script is a sequence of UTF-16 code units, numbers from 0 to 65535. Text
  that is plain ASCII is written \<open>asc ''...''\<close>; every other character is written by its
  code units (a character outside the basic plane is a surrogate pair, as in the script's own
  strings). The statements below hold for every list of integers, so for every string.
\<close>

type_synonym cu = int
type_synonym jsstring = "cu list"

definition asc :: "string \<Rightarrow> jsstring" where
  "asc s = map of_char s"

text \<open>
  The values a script argument can take. \<open>JNumber\<close> stands for the integral numbers and
  \<open>JObject\<close> for every object, array or function; \<open>parseBool\<close> looks at neither payload.
\<close>

datatype jsval = JUndefined | JNull | JBool bool | JNumber int | JString jsstring | JObject

text \<open>
  \<open>String.prototype.toLowerCase\<close>, as far as the comparison with \<open>'true'\<close> can see it:
  the letters A to Z go to a to z. No character outside ASCII has a lower-case mapping that
  produces one of the letters t, r, u, e, so leaving those characters alone does not change
  the outcome of the comparison.
\<close>

definition toLowerCase_cu :: "cu \<Rightarrow> cu" where
  "toLowerCase_cu c = (if 65 \<le> c \<and> c \<le> 90 then c + 32 else c)"

definition toLowerCase :: "jsstring \<Rightarrow> jsstring" where
  "toLowerCase s = map toLowerCase_cu s"

fun parseBool :: "jsval \<Rightarrow> bool" where
  "parseBool (JBool b) = b"
| "parseBool (JString s) = (toLowerCase s = asc ''true'' \<or> s = asc ''1'')"
| "parseBool _ = False"

record flags =
  loadBalance :: bool
  landing :: bool
  ipv6Enabled :: bool
  fullConfig :: bool
  keepAliveEnabled :: bool
  fakeIPEnabled :: bool
  quicEnabled :: bool
  countryThreshold :: int

text \<open>
  \<open>buildFeatureFlags\<close>: the \<open>reduce\<close> over the seven entries of \<open>spec\<close>, written out.
  \<open>args\<close> maps a key to the argument's value, \<open>JUndefined\<close> for a key that is not there.
  The number that \<open>parseNumber(args.threshold, 0)\<close> yields is taken as the parameter
  \<open>threshold\<close>: it is an integer (or an infinity, which compares with a node count
  as an integer beyond every count does).
\<close>

definition buildFeatureFlags :: "(jsstring \<Rightarrow> jsval) \<Rightarrow> int \<Rightarrow> flags" where
  "buildFeatureFlags args threshold =
     \<lparr>loadBalance = (parseBool (args (asc ''loadbalance'')) \<or> False),
      landing = (parseBool (args (asc ''landing'')) \<or> False),
      ipv6Enabled = (parseBool (args (asc ''ipv6'')) \<or> False),
      fullConfig = (parseBool (args (asc ''full'')) \<or> False),
      keepAliveEnabled = (parseBool (args (asc ''keepalive'')) \<or> False),
      fakeIPEnabled = (parseBool (args (asc ''fakeip'')) \<or> False),
      quicEnabled = (parseBool (args (asc ''quic'')) \<or> False),
      countryThreshold = threshold\<rparr>"

section \<open>Regular expressions\<close>

text \<open>
  The script's regular expressions are alternations of sequences of literal characters,
  with one character class \<open>[0-5]\<close>, some with the flag \<open>i\<close>, none with \<open>g\<close> or \<open>y\<close>
  (so \<open>test\<close> keeps no position between calls). \<open>test\<close> succeeds when some alternative
  matches at some position of the string.

  \<open>canonicalize\<close> is the case folding of a regular expression without the flag \<open>u\<close>:
  a character is compared by its upper-case form, and a character outside ASCII is never
  folded onto an ASCII one. The characters of the script's patterns are ASCII or have no
  case mapping, so folding a to z is all that these patterns can observe.
\<close>

datatype atom = Lit cu | Class cu cu

datatype regex = Regex (ignoreCase: bool) (alternatives: "atom list list")

definition canonicalize :: "bool \<Rightarrow> cu \<Rightarrow> cu" where
  "canonicalize ic c = (if ic \<and> 97 \<le> c \<and> c \<le> 122 then c - 32 else c)"

fun atom_matches :: "bool \<Rightarrow> atom \<Rightarrow> cu \<Rightarrow> bool" where
  "atom_matches ic (Lit p) c = (canonicalize ic p = canonicalize ic c)"
| "atom_matches ic (Class lo hi) c =
     list_ex (\<lambda>a. canonicalize ic a = canonicalize ic c) [lo..hi]"

fun match_here :: "bool \<Rightarrow> atom list \<Rightarrow> jsstring \<Rightarrow> bool" where
  "match_here ic [] s = True"
| "match_here ic (a # as) [] = False"
| "match_here ic (a # as) (c # cs) = (atom_matches ic a c \<and> match_here ic as cs)"

definition match_at :: "regex \<Rightarrow> jsstring \<Rightarrow> bool" where
  "match_at r s = list_ex (\<lambda>alt. match_here (ignoreCase r) alt s) (alternatives r)"

fun test :: "regex \<Rightarrow> jsstring \<Rightarrow> bool" where
  "test r [] = match_at r []"
| "test r (c # cs) = (match_at r (c # cs) \<or> test r cs)"

text \<open>
  \<open>new RegExp(p)\<close> for a pattern text \<open>p\<close> whose only operator is \<open>|\<close>: the text
  between two bars is one alternative.
\<close>

fun split_bar :: "jsstring \<Rightarrow> jsstring list" where
  "split_bar [] = [[]]"
| "split_bar (c # cs) =
     (if c = 124 then [] # split_bar cs
      else (case split_bar cs of [] \<Rightarrow> [[c]] | a # as \<Rightarrow> (c # a) # as))"

definition literal_alternatives :: "jsstring \<Rightarrow> atom list list" where
  "literal_alternatives p = map (map Lit) (split_bar p)"

definition newRegExp :: "jsstring \<Rightarrow> regex" where
  "newRegExp p = Regex False (literal_alternatives p)"

text \<open>\<open>p.replace(/^\(\?i\)/, '')\<close>: a leading \<open>(?i)\<close> is dropped.\<close>

definition strip_inline_flag :: "jsstring \<Rightarrow> jsstring" where
  "strip_inline_flag p = (if take 4 p = asc ''(?i)'' then drop 4 p else p)"

section \<open>The region catalog\<close>

definition NODE_SUFFIX :: jsstring where
  "NODE_SUFFIX = [0x8282, 0x70B9]"

record meta =
  pattern :: jsstring
  icon :: jsstring

text \<open>\<open>countriesMeta\<close>, in the order of its keys in the script.\<close>

definition countriesMeta :: "(jsstring \<times> meta) list" where
  "countriesMeta = [
    ([0x9999, 0x6E2F],
      \<lparr>pattern = [0x9999, 0x6E2F] @ asc ''|'' @ [0x6E2F] @ asc ''|HK|hk|Hong Kong|HongKong|hongkong|'' @ [0xD83C, 0xDDED, 0xD83C, 0xDDF0],
       icon = asc ''https://gcore.jsdelivr.net/gh/Koolson/Qure@master/IconSet/Color/Hong_Kong.png''\<rparr>),
    ([0x6FB3, 0x95E8],
      \<lparr>pattern = [0x6FB3, 0x95E8] @ asc ''|MO|Macau|'' @ [0xD83C, 0xDDF2, 0xD83C, 0xDDF4],
       icon = asc ''https://gcore.jsdelivr.net/gh/Koolson/Qure@master/IconSet/Color/Macao.png''\<rparr>),
    ([0x53F0, 0x6E7E],
      \<lparr>pattern = [0x53F0] @ asc ''|'' @ [0x65B0, 0x5317] @ asc ''|'' @ [0x5F70, 0x5316] @ asc ''|TW|Taiwan|'' @ [0xD83C, 0xDDF9, 0xD83C, 0xDDFC],
       icon = asc ''https://gcore.jsdelivr.net/gh/Koolson/Qure@master/IconSet/Color/Taiwan.png''\<rparr>),
    ([0x65B0, 0x52A0, 0x5761],
      \<lparr>pattern = [0x65B0, 0x52A0, 0x5761] @ asc ''|'' @ [0x5761] @ asc ''|'' @ [0x72EE, 0x57CE] @ asc ''|SG|Singapore|'' @ [0xD83C, 0xDDF8, 0xD83C, 0xDDEC],
       icon = asc ''https://gcore.jsdelivr.net/gh/Koolson/Qure@master/IconSet/Color/Singapore.png''\<rparr>),
    ([0x65E5, 0x672C],
      \<lparr>pattern = [0x65E5, 0x672C] @ asc ''|'' @ [0x5DDD, 0x65E5] @ asc ''|'' @ [0x4E1C, 0x4EAC] @ asc ''|'' @ [0x5927, 0x962A] @ asc ''|'' @ [0x6CC9, 0x65E5] @ asc ''|'' @ [0x57FC, 0x7389] @ asc ''|'' @ [0x6CAA, 0x65E5] @ asc ''|'' @ [0x6DF1, 0x65E5] @ asc ''|JP|Japan|'' @ [0xD83C, 0xDDEF, 0xD83C, 0xDDF5],
       icon = asc ''https://gcore.jsdelivr.net/gh/Koolson/Qure@master/IconSet/Color/Japan.png''\<rparr>),
    ([0x97E9, 0x56FD],
      \<lparr>pattern = asc ''KR|Korea|KOR|'' @ [0x9996, 0x5C14] @ asc ''|'' @ [0x97E9] @ asc ''|'' @ [0x97D3] @ asc ''|'' @ [0xD83C, 0xDDF0, 0xD83C, 0xDDF7],
       icon = asc ''https://gcore.jsdelivr.net/gh/Koolson/Qure@master/IconSet/Color/Korea.png''\<rparr>),
    ([0x7F8E, 0x56FD],
      \<lparr>pattern = [0x7F8E, 0x56FD] @ asc ''|'' @ [0x7F8E] @ asc ''|US|United States|'' @ [0xD83C, 0xDDFA, 0xD83C, 0xDDF8],
       icon = asc ''https://gcore.jsdelivr.net/gh/Koolson/Qure@master/IconSet/Color/United_States.png''\<rparr>),
    ([0x52A0, 0x62FF, 0x5927],
      \<lparr>pattern = [0x52A0, 0x62FF, 0x5927] @ asc ''|Canada|CA|'' @ [0xD83C, 0xDDE8, 0xD83C, 0xDDE6],
       icon = asc ''https://gcore.jsdelivr.net/gh/Koolson/Qure@master/IconSet/Color/Canada.png''\<rparr>),
    ([0x82F1, 0x56FD],
      \<lparr>pattern = [0x82F1, 0x56FD] @ asc ''|United Kingdom|UK|'' @ [0x4F26, 0x6566] @ asc ''|London|'' @ [0xD83C, 0xDDEC, 0xD83C, 0xDDE7],
       icon = asc ''https://gcore.jsdelivr.net/gh/Koolson/Qure@master/IconSet/Color/United_Kingdom.png''\<rparr>),
    ([0x6FB3, 0x5927, 0x5229, 0x4E9A],
      \<lparr>pattern = [0x6FB3, 0x6D32] @ asc ''|'' @ [0x6FB3, 0x5927, 0x5229, 0x4E9A] @ asc ''|AU|Australia|'' @ [0xD83C, 0xDDE6, 0xD83C, 0xDDFA],
       icon = asc ''https://gcore.jsdelivr.net/gh/Koolson/Qure@master/IconSet/Color/Australia.png''\<rparr>),
    ([0x5FB7, 0x56FD],
      \<lparr>pattern = [0x5FB7, 0x56FD] @ asc ''|'' @ [0x5FB7] @ asc ''|DE|Germany|'' @ [0xD83C, 0xDDE9, 0xD83C, 0xDDEA],
       icon = asc ''https://gcore.jsdelivr.net/gh/Koolson/Qure@master/IconSet/Color/Germany.png''\<rparr>),
    ([0x6CD5, 0x56FD],
      \<lparr>pattern = [0x6CD5, 0x56FD] @ asc ''|'' @ [0x6CD5] @ asc ''|FR|France|'' @ [0xD83C, 0xDDEB, 0xD83C, 0xDDF7],
       icon = asc ''https://gcore.jsdelivr.net/gh/Koolson/Qure@master/IconSet/Color/France.png''\<rparr>),
    ([0x4FC4, 0x7F57, 0x65AF],
      \<lparr>pattern = [0x4FC4, 0x7F57, 0x65AF] @ asc ''|'' @ [0x4FC4] @ asc ''|RU|Russia|'' @ [0xD83C, 0xDDF7, 0xD83C, 0xDDFA],
       icon = asc ''https://gcore.jsdelivr.net/gh/Koolson/Qure@master/IconSet/Color/Russia.png''\<rparr>),
    ([0x6CF0, 0x56FD],
      \<lparr>pattern = [0x6CF0, 0x56FD] @ asc ''|'' @ [0x6CF0] @ asc ''|TH|Thailand|'' @ [0xD83C, 0xDDF9, 0xD83C, 0xDDED],
       icon = asc ''https://gcore.jsdelivr.net/gh/Koolson/Qure@master/IconSet/Color/Thailand.png''\<rparr>),
    ([0x5370, 0x5EA6],
      \<lparr>pattern = [0x5370, 0x5EA6] @ asc ''|IN|India|'' @ [0xD83C, 0xDDEE, 0xD83C, 0xDDF3],
       icon = asc ''https://gcore.jsdelivr.net/gh/Koolson/Qure@master/IconSet/Color/India.png''\<rparr>),
    ([0x9A6C, 0x6765, 0x897F, 0x4E9A],
      \<lparr>pattern = [0x9A6C, 0x6765, 0x897F, 0x4E9A] @ asc ''|'' @ [0x9A6C, 0x6765] @ asc ''|MY|Malaysia|'' @ [0xD83C, 0xDDF2, 0xD83C, 0xDDFE],
       icon = asc ''https://gcore.jsdelivr.net/gh/Koolson/Qure@master/IconSet/Color/Malaysia.png''\<rparr>)]"

section \<open>Classification\<close>

record proxy =
  proxy_name :: "jsstring option"

record config =
  proxies :: "proxy list option"

text \<open>\<open>config.proxies || []\<close>\<close>

definition proxies_or_empty :: "'a config_scheme \<Rightarrow> proxy list" where
  "proxies_or_empty cfg = (case proxies cfg of None \<Rightarrow> [] | Some ps \<Rightarrow> ps)"

text \<open>\<open>proxy.name || ''\<close>\<close>

definition name_or_empty :: "proxy \<Rightarrow> jsstring" where
  "name_or_empty p = (case proxy_name p of None \<Rightarrow> [] | Some n \<Rightarrow> n)"

text \<open>
  The argument of \<open>test\<close> is converted to a string: a missing name reads \<open>undefined\<close>.
\<close>

definition name_text :: "proxy \<Rightarrow> jsstring" where
  "name_text p = (case proxy_name p of None \<Rightarrow> asc ''undefined'' | Some n \<Rightarrow> n)"

definition lowCostRegex :: regex where
  "lowCostRegex = Regex True
     ([Lit 0x30, Lit 0x2E, Class 0x30 0x35] #
      literal_alternatives ([0x4F4E, 0x500D, 0x7387] @ asc ''|'' @ [0x7701, 0x6D41] @ asc ''|'' @ [0x5927, 0x6D41, 0x91CF] @ asc ''|'' @ [0x5B9E, 0x9A8C, 0x6027]))"

definition hasLowCost :: "'a config_scheme \<Rightarrow> bool" where
  "hasLowCost cfg = list_ex (\<lambda>p. test lowCostRegex (name_text p)) (proxies_or_empty cfg)"

definition ispRegex :: regex where
  "ispRegex = Regex True (literal_alternatives ([0x5BB6, 0x5BBD] @ asc ''|'' @ [0x5BB6, 0x5EAD] @ asc ''|'' @ [0x5BB6, 0x5EAD, 0x5BBD, 0x5E26] @ asc ''|'' @ [0x5546, 0x5BBD] @ asc ''|'' @ [0x5546, 0x4E1A, 0x5BBD, 0x5E26] @ asc ''|'' @ [0x661F, 0x94FE] @ asc ''|Starlink|'' @ [0x843D, 0x5730]))"

definition compiledRegex :: "(jsstring \<times> regex) list" where
  "compiledRegex =
     map (\<lambda>(c, m). (c, newRegExp (strip_inline_flag (pattern m)))) countriesMeta"

text \<open>
  \<open>countryCounts\<close> is an object without prototype whose keys are region names; its
  entries are listed in the order in which the keys were first written.
  \<open>increment\<close> is \<open>countryCounts[c] = (countryCounts[c] || 0) + 1\<close>.
\<close>

type_synonym counts = "(jsstring \<times> nat) list"

fun increment :: "counts \<Rightarrow> jsstring \<Rightarrow> counts" where
  "increment [] c = [(c, 1)]"
| "increment ((k, n) # rest) c =
     (if k = c then (k, n + 1) # rest else (k, n) # increment rest c)"

text \<open>The inner loop: the first region whose expression matches is counted, then \<open>break\<close>.\<close>

fun count_first_match :: "(jsstring \<times> regex) list \<Rightarrow> jsstring \<Rightarrow> counts \<Rightarrow> counts" where
  "count_first_match [] n cs = cs"
| "count_first_match ((c, r) # rest) n cs =
     (if test r n then increment cs c else count_first_match rest n cs)"

text \<open>One round of the outer loop: a name with a keyword of \<open>ispRegex\<close> is skipped.\<close>

definition count_proxy :: "counts \<Rightarrow> proxy \<Rightarrow> counts" where
  "count_proxy cs p =
     (let n = name_or_empty p
      in if test ispRegex n then cs else count_first_match compiledRegex n cs)"

fun count_proxies :: "proxy list \<Rightarrow> counts \<Rightarrow> counts" where
  "count_proxies [] cs = cs"
| "count_proxies (p # ps) cs = count_proxies ps (count_proxy cs p)"

record country_info =
  country :: jsstring
  count :: nat

definition parseCountries :: "'a config_scheme \<Rightarrow> country_info list" where
  "parseCountries cfg =
     map (\<lambda>(c, n). \<lparr>country = c, count = n\<rparr>) (count_proxies (proxies_or_empty cfg) [])"

section \<open>Selector lists\<close>

definition getCountryGroupNames :: "country_info list \<Rightarrow> int \<Rightarrow> jsstring list" where
  "getCountryGroupNames countryInfo minCount =
     map (\<lambda>item. country item @ NODE_SUFFIX)
       (filter (\<lambda>item. int (count item) \<ge> minCount) countryInfo)"

text \<open>
  \<open>name.replace(/SUFFIX$/, '')\<close>: the expression matches where the rest of the name is
  exactly the suffix, and the match is replaced by nothing.
\<close>

fun replace_at_end :: "jsstring \<Rightarrow> jsstring \<Rightarrow> jsstring" where
  "replace_at_end suffix [] = []"
| "replace_at_end suffix (c # cs) =
     (if c # cs = suffix then [] else c # replace_at_end suffix cs)"

definition stripNodeSuffix :: "jsstring list \<Rightarrow> jsstring list" where
  "stripNodeSuffix groupNames = map (replace_at_end NODE_SUFFIX) groupNames"

definition PROXY_GROUPS_SELECT :: jsstring where
  "PROXY_GROUPS_SELECT = [0x9009, 0x62E9, 0x4EE3, 0x7406]"

definition PROXY_GROUPS_MANUAL :: jsstring where
  "PROXY_GROUPS_MANUAL = [0x624B, 0x52A8, 0x9009, 0x62E9]"

definition PROXY_GROUPS_FALLBACK :: jsstring where
  "PROXY_GROUPS_FALLBACK = [0x6545, 0x969C, 0x8F6C, 0x79FB]"

definition PROXY_GROUPS_DIRECT :: jsstring where
  "PROXY_GROUPS_DIRECT = [0x76F4, 0x8FDE]"

definition PROXY_GROUPS_LANDING :: jsstring where
  "PROXY_GROUPS_LANDING = [0x843D, 0x5730, 0x8282, 0x70B9]"

definition PROXY_GROUPS_LOW_COST :: jsstring where
  "PROXY_GROUPS_LOW_COST = [0x4F4E, 0x500D, 0x7387, 0x8282, 0x70B9]"

text \<open>
  An argument of \<open>buildList\<close> is \<open>false\<close> (a condition that did not hold), a string or
  an array of strings. \<open>flat()\<close> opens the arrays, \<open>filter(Boolean)\<close> drops \<open>false\<close> and
  the empty string.
\<close>

datatype element = EFalse | EString jsstring | EArray "jsstring list"

fun flat :: "element list \<Rightarrow> jsstring option list" where
  "flat [] = []"
| "flat (EFalse # es) = None # flat es"
| "flat (EString s # es) = Some s # flat es"
| "flat (EArray xs # es) = map Some xs @ flat es"

fun filter_truthy :: "jsstring option list \<Rightarrow> jsstring list" where
  "filter_truthy [] = []"
| "filter_truthy (None # vs) = filter_truthy vs"
| "filter_truthy (Some s # vs) = (if s = [] then filter_truthy vs else s # filter_truthy vs)"

definition buildList :: "element list \<Rightarrow> jsstring list" where
  "buildList elements = filter_truthy (flat elements)"

text \<open>\<open>b && s\<close> for a boolean \<open>b\<close> and a string \<open>s\<close>\<close>

definition and_then :: "bool \<Rightarrow> jsstring \<Rightarrow> element" where
  "and_then b s = (if b then EString s else EFalse)"

record base_lists =
  defaultProxies :: "jsstring list"
  defaultProxiesDirect :: "jsstring list"
  defaultSelector :: "jsstring list"
  defaultFallback :: "jsstring list"

definition buildBaseLists :: "bool \<Rightarrow> bool \<Rightarrow> jsstring list \<Rightarrow> base_lists" where
  "buildBaseLists landing' lowCost countryGroupNames =
     \<lparr>defaultProxies = buildList
        [EString PROXY_GROUPS_SELECT,
         EArray countryGroupNames,
         and_then lowCost PROXY_GROUPS_LOW_COST,
         EString PROXY_GROUPS_MANUAL,
         EString PROXY_GROUPS_DIRECT],
      defaultProxiesDirect = buildList
        [EString PROXY_GROUPS_DIRECT,
         EArray countryGroupNames,
         and_then lowCost PROXY_GROUPS_LOW_COST,
         EString PROXY_GROUPS_SELECT,
         EString PROXY_GROUPS_MANUAL],
      defaultSelector = buildList
        [EString PROXY_GROUPS_FALLBACK,
         and_then landing' PROXY_GROUPS_LANDING,
         EArray countryGroupNames,
         and_then lowCost PROXY_GROUPS_LOW_COST,
         EString PROXY_GROUPS_MANUAL,
         EString (asc ''DIRECT'')],
      defaultFallback = buildList
        [and_then landing' PROXY_GROUPS_LANDING,
         EArray countryGroupNames,
         and_then lowCost PROXY_GROUPS_LOW_COST,
         EString PROXY_GROUPS_MANUAL,
         EString (asc ''DIRECT'')]\<rparr>"

section \<open>Static tables and module state\<close>

record rule_provider =
  rp_type :: jsstring
  rp_behavior :: jsstring
  rp_format :: jsstring
  rp_path :: jsstring
  rp_url :: jsstring
  rp_interval :: int

definition ruleProviders :: "(jsstring \<times> rule_provider) list" where
  "ruleProviders = [
    (asc ''fakeip-filter'',
     \<lparr>rp_type = asc ''http'', rp_behavior = asc ''domain'', rp_format = asc ''mrs'',
      rp_path = asc ''./ruleset/fakeip-filter.mrs'',
      rp_url = asc ''https://github.com/DustinWin/ruleset_geodata/releases/download/mihomo-ruleset/fakeip-filter.mrs'',
      rp_interval = 86400\<rparr>),
    (asc ''private'',
     \<lparr>rp_type = asc ''http'', rp_behavior = asc ''domain'', rp_format = asc ''mrs'',
      rp_path = asc ''./ruleset/private.mrs'',
      rp_url = asc ''https://github.com/DustinWin/ruleset_geodata/releases/download/mihomo-ruleset/private.mrs'',
      rp_interval = 86400\<rparr>),
    (asc ''ads'',
     \<lparr>rp_type = asc ''http'', rp_behavior = asc ''domain'', rp_format = asc ''mrs'',
      rp_path = asc ''./ruleset/ads.mrs'',
      rp_url = asc ''https://github.com/DustinWin/ruleset_geodata/releases/download/mihomo-ruleset/ads.mrs'',
      rp_interval = 86400\<rparr>),
    (asc ''trackerslist'',
     \<lparr>rp_type = asc ''http'', rp_behavior = asc ''domain'', rp_format = asc ''mrs'',
      rp_path = asc ''./ruleset/trackerslist.mrs'',
      rp_url = asc ''https://github.com/DustinWin/ruleset_geodata/releases/download/mihomo-ruleset/trackerslist.mrs'',
      rp_interval = 86400\<rparr>),
    (asc ''applications'',
     \<lparr>rp_type = asc ''http'', rp_behavior = asc ''classical'', rp_format = asc ''text'',
      rp_path = asc ''./ruleset/applications.list'',
      rp_url = asc ''https://github.com/DustinWin/ruleset_geodata/releases/download/mihomo-ruleset/applications.list'',
      rp_interval = 86400\<rparr>),
    (asc ''microsoft-cn'',
     \<lparr>rp_type = asc ''http'', rp_behavior = asc ''domain'', rp_format = asc ''mrs'',
      rp_path = asc ''./ruleset/microsoft-cn.mrs'',
      rp_url = asc ''https://github.com/DustinWin/ruleset_geodata/releases/download/mihomo-ruleset/microsoft-cn.mrs'',
      rp_interval = 86400\<rparr>),
    (asc ''apple-cn'',
     \<lparr>rp_type = asc ''http'', rp_behavior = asc ''domain'', rp_format = asc ''mrs'',
      rp_path = asc ''./ruleset/apple-cn.mrs'',
      rp_url = asc ''https://github.com/DustinWin/ruleset_geodata/releases/download/mihomo-ruleset/apple-cn.mrs'',
      rp_interval = 86400\<rparr>),
    (asc ''google-cn'',
     \<lparr>rp_type = asc ''http'', rp_behavior = asc ''domain'', rp_format = asc ''mrs'',
      rp_path = asc ''./ruleset/google-cn.mrs'',
      rp_url = asc ''https://github.com/DustinWin/ruleset_geodata/releases/download/mihomo-ruleset/google-cn.mrs'',
      rp_interval = 86400\<rparr>),
    (asc ''games-cn'',
     \<lparr>rp_type = asc ''http'', rp_behavior = asc ''domain'', rp_format = asc ''mrs'',
      rp_path = asc ''./ruleset/games-cn.mrs'',
      rp_url = asc ''https://github.com/DustinWin/ruleset_geodata/releases/download/mihomo-ruleset/games-cn.mrs'',
      rp_interval = 86400\<rparr>),
    (asc ''netflix'',
     \<lparr>rp_type = asc ''http'', rp_behavior = asc ''domain'', rp_format = asc ''mrs'',
      rp_path = asc ''./ruleset/netflix.mrs'',
      rp_url = asc ''https://github.com/DustinWin/ruleset_geodata/releases/download/mihomo-ruleset/netflix.mrs'',
      rp_interval = 86400\<rparr>),
    (asc ''disney'',
     \<lparr>rp_type = asc ''http'', rp_behavior = asc ''domain'', rp_format = asc ''mrs'',
      rp_path = asc ''./ruleset/disney.mrs'',
      rp_url = asc ''https://github.com/DustinWin/ruleset_geodata/releases/download/mihomo-ruleset/disney.mrs'',
      rp_interval = 86400\<rparr>),
    (asc ''max'',
     \<lparr>rp_type = asc ''http'', rp_behavior = asc ''domain'', rp_format = asc ''mrs'',
      rp_path = asc ''./ruleset/max.mrs'',
      rp_url = asc ''https://github.com/DustinWin/ruleset_geodata/releases/download/mihomo-ruleset/max.mrs'',
      rp_interval = 86400\<rparr>),
    (asc ''primevideo'',
     \<lparr>rp_type = asc ''http'', rp_behavior = asc ''domain'', rp_format = asc ''mrs'',
      rp_path = asc ''./ruleset/primevideo.mrs'',
      rp_url = asc ''https://github.com/DustinWin/ruleset_geodata/releases/download/mihomo-ruleset/primevideo.mrs'',
      rp_interval = 86400\<rparr>),
    (asc ''appletv'',
     \<lparr>rp_type = asc ''http'', rp_behavior = asc ''domain'', rp_format = asc ''mrs'',
      rp_path = asc ''./ruleset/appletv.mrs'',
      rp_url = asc ''https://github.com/DustinWin/ruleset_geodata/releases/download/mihomo-ruleset/appletv.mrs'',
      rp_interval = 86400\<rparr>),
    (asc ''youtube'',
     \<lparr>rp_type = asc ''http'', rp_behavior = asc ''domain'', rp_format = asc ''mrs'',
      rp_path = asc ''./ruleset/youtube.mrs'',
      rp_url = asc ''https://github.com/DustinWin/ruleset_geodata/releases/download/mihomo-ruleset/youtube.mrs'',
      rp_interval = 86400\<rparr>),
    (asc ''tiktok'',
     \<lparr>rp_type = asc ''http'', rp_behavior = asc ''domain'', rp_format = asc ''mrs'',
      rp_path = asc ''./ruleset/tiktok.mrs'',
      rp_url = asc ''https://github.com/DustinWin/ruleset_geodata/releases/download/mihomo-ruleset/tiktok.mrs'',
      rp_interval = 86400\<rparr>),
    (asc ''bilibili'',
     \<lparr>rp_type = asc ''http'', rp_behavior = asc ''domain'', rp_format = asc ''mrs'',
      rp_path = asc ''./ruleset/bilibili.mrs'',
      rp_url = asc ''https://github.com/DustinWin/ruleset_geodata/releases/download/mihomo-ruleset/bilibili.mrs'',
      rp_interval = 86400\<rparr>),
    (asc ''spotify'',
     \<lparr>rp_type = asc ''http'', rp_behavior = asc ''domain'', rp_format = asc ''mrs'',
      rp_path = asc ''./ruleset/spotify.mrs'',
      rp_url = asc ''https://github.com/DustinWin/ruleset_geodata/releases/download/mihomo-ruleset/spotify.mrs'',
      rp_interval = 86400\<rparr>),
    (asc ''media'',
     \<lparr>rp_type = asc ''http'', rp_behavior = asc ''domain'', rp_format = asc ''mrs'',
      rp_path = asc ''./ruleset/media.mrs'',
      rp_url = asc ''https://github.com/DustinWin/ruleset_geodata/releases/download/mihomo-ruleset/media.mrs'',
      rp_interval = 86400\<rparr>),
    (asc ''games'',
     \<lparr>rp_type = asc ''http'', rp_behavior = asc ''domain'', rp_format = asc ''mrs'',
      rp_path = asc ''./ruleset/games.mrs'',
      rp_url = asc ''https://github.com/DustinWin/ruleset_geodata/releases/download/mihomo-ruleset/games.mrs'',
      rp_interval = 86400\<rparr>),
    (asc ''ai'',
     \<lparr>rp_type = asc ''http'', rp_behavior = asc ''domain'', rp_format = asc ''mrs'',
      rp_path = asc ''./ruleset/ai.mrs'',
      rp_url = asc ''https://github.com/DustinWin/ruleset_geodata/releases/download/mihomo-ruleset/ai.mrs'',
      rp_interval = 86400\<rparr>),
    (asc ''networktest'',
     \<lparr>rp_type = asc ''http'', rp_behavior = asc ''domain'', rp_format = asc ''mrs'',
      rp_path = asc ''./ruleset/networktest.mrs'',
      rp_url = asc ''https://github.com/DustinWin/ruleset_geodata/releases/download/mihomo-ruleset/networktest.mrs'',
      rp_interval = 86400\<rparr>),
    (asc ''tld-proxy'',
     \<lparr>rp_type = asc ''http'', rp_behavior = asc ''domain'', rp_format = asc ''mrs'',
      rp_path = asc ''./ruleset/tld-proxy.mrs'',
      rp_url = asc ''https://github.com/DustinWin/ruleset_geodata/releases/download/mihomo-ruleset/tld-proxy.mrs'',
      rp_interval = 86400\<rparr>),
    (asc ''gfw'',
     \<lparr>rp_type = asc ''http'', rp_behavior = asc ''domain'', rp_format = asc ''mrs'',
      rp_path = asc ''./ruleset/gfw.mrs'',
      rp_url = asc ''https://github.com/DustinWin/ruleset_geodata/releases/download/mihomo-ruleset/gfw.mrs'',
      rp_interval = 86400\<rparr>),
    (asc ''cn'',
     \<lparr>rp_type = asc ''http'', rp_behavior = asc ''domain'', rp_format = asc ''mrs'',
      rp_path = asc ''./ruleset/cn.mrs'',
      rp_url = asc ''https://github.com/DustinWin/ruleset_geodata/releases/download/mihomo-ruleset/cn.mrs'',
      rp_interval = 86400\<rparr>),
    (asc ''privateip'',
     \<lparr>rp_type = asc ''http'', rp_behavior = asc ''ipcidr'', rp_format = asc ''mrs'',
      rp_path = asc ''./ruleset/privateip.mrs'',
      rp_url = asc ''https://github.com/DustinWin/ruleset_geodata/releases/download/mihomo-ruleset/privateip.mrs'',
      rp_interval = 86400\<rparr>),
    (asc ''cnip'',
     \<lparr>rp_type = asc ''http'', rp_behavior = asc ''ipcidr'', rp_format = asc ''mrs'',
      rp_path = asc ''./ruleset/cnip.mrs'',
      rp_url = asc ''https://github.com/DustinWin/ruleset_geodata/releases/download/mihomo-ruleset/cnip.mrs'',
      rp_interval = 86400\<rparr>),
    (asc ''netflixip'',
     \<lparr>rp_type = asc ''http'', rp_behavior = asc ''ipcidr'', rp_format = asc ''mrs'',
      rp_path = asc ''./ruleset/netflixip.mrs'',
      rp_url = asc ''https://github.com/DustinWin/ruleset_geodata/releases/download/mihomo-ruleset/netflixip.mrs'',
      rp_interval = 86400\<rparr>),
    (asc ''mediaip'',
     \<lparr>rp_type = asc ''http'', rp_behavior = asc ''ipcidr'', rp_format = asc ''mrs'',
      rp_path = asc ''./ruleset/mediaip.mrs'',
      rp_url = asc ''https://github.com/DustinWin/ruleset_geodata/releases/download/mihomo-ruleset/mediaip.mrs'',
      rp_interval = 86400\<rparr>),
    (asc ''gamesip'',
     \<lparr>rp_type = asc ''http'', rp_behavior = asc ''ipcidr'', rp_format = asc ''mrs'',
      rp_path = asc ''./ruleset/gamesip.mrs'',
      rp_url = asc ''https://github.com/DustinWin/ruleset_geodata/releases/download/mihomo-ruleset/gamesip.mrs'',
      rp_interval = 86400\<rparr>),
    (asc ''telegramip'',
     \<lparr>rp_type = asc ''http'', rp_behavior = asc ''ipcidr'', rp_format = asc ''mrs'',
      rp_path = asc ''./ruleset/telegramip.mrs'',
      rp_url = asc ''https://github.com/DustinWin/ruleset_geodata/releases/download/mihomo-ruleset/telegramip.mrs'',
      rp_interval = 86400\<rparr>)]"

definition baseRules :: "jsstring list" where
  "baseRules = [
    asc ''RULE-SET,private,'' @ [0xD83D, 0xDD12] @ asc '' '' @ [0x79C1, 0x6709, 0x7F51, 0x7EDC],
    asc ''RULE-SET,ads,'' @ [0xD83D, 0xDED1] @ asc '' '' @ [0x5E7F, 0x544A, 0x57DF, 0x540D],
    asc ''RULE-SET,trackerslist,'' @ [0xD83D, 0xDCCB] @ asc '' Trackerslist'',
    asc ''RULE-SET,applications,'' @ [0x2B07, 0xFE0F] @ asc '' '' @ [0x76F4, 0x8FDE, 0x8F6F, 0x4EF6],
    asc ''RULE-SET,microsoft-cn,'' @ [0xD83E, 0xDE9F] @ asc '' '' @ [0x5FAE, 0x8F6F, 0x670D, 0x52A1],
    asc ''RULE-SET,apple-cn,'' @ [0xD83C, 0xDF4E] @ asc '' '' @ [0x82F9, 0x679C, 0x670D, 0x52A1],
    asc ''RULE-SET,google-cn,'' @ [0xD83C, 0xDDEC] @ asc '' '' @ [0x8C37, 0x6B4C, 0x670D, 0x52A1],
    asc ''RULE-SET,games-cn,'' @ [0xD83C, 0xDFAE] @ asc '' '' @ [0x6E38, 0x620F, 0x670D, 0x52A1],
    asc ''RULE-SET,netflix,'' @ [0xD83C, 0xDFA5] @ asc '' '' @ [0x5948, 0x98DE, 0x89C6, 0x9891],
    asc ''RULE-SET,disney,'' @ [0xD83D, 0xDCFD, 0xFE0F] @ asc '' '' @ [0x8FEA, 0x58EB, 0x5C3C] @ asc ''+'',
    asc ''RULE-SET,max,'' @ [0xD83C, 0xDF9E, 0xFE0F] @ asc '' Max'',
    asc ''RULE-SET,primevideo,'' @ [0xD83C, 0xDFAC] @ asc '' Prime Video'',
    asc ''RULE-SET,appletv,'' @ [0xD83C, 0xDF4E] @ asc '' Apple TV+'',
    asc ''RULE-SET,youtube,'' @ [0xD83D, 0xDCF9] @ asc '' '' @ [0x6CB9, 0x7BA1, 0x89C6, 0x9891],
    asc ''RULE-SET,tiktok,'' @ [0xD83C, 0xDFB5] @ asc '' TikTok'',
    asc ''RULE-SET,bilibili,'' @ [0xD83D, 0xDCFA] @ asc '' '' @ [0x54D4, 0x54E9, 0x54D4, 0x54E9],
    asc ''RULE-SET,spotify,'' @ [0xD83C, 0xDFB6] @ asc '' Spotify'',
    asc ''RULE-SET,media,'' @ [0xD83C, 0xDF0D] @ asc '' '' @ [0x56FD, 0x5916, 0x5A92, 0x4F53],
    asc ''RULE-SET,games,'' @ [0xD83C, 0xDFAE] @ asc '' '' @ [0x6E38, 0x620F, 0x5E73, 0x53F0],
    asc ''RULE-SET,ai,'' @ [0xD83E, 0xDD16] @ asc '' AI '' @ [0x5E73, 0x53F0],
    asc ''RULE-SET,networktest,'' @ [0xD83D, 0xDCC8] @ asc '' '' @ [0x7F51, 0x7EDC, 0x6D4B, 0x8BD5],
    asc ''RULE-SET,tld-proxy,'' @ [0xD83E, 0xDDF1] @ asc '' '' @ [0x4EE3, 0x7406, 0x9876, 0x7EA7, 0x57DF, 0x540D],
    asc ''RULE-SET,gfw,'' @ [0xD83E, 0xDDF1] @ asc '' '' @ [0x4EE3, 0x7406, 0x57DF, 0x540D],
    asc ''RULE-SET,cn,'' @ [0xD83D, 0xDEE1, 0xFE0F] @ asc '' '' @ [0x76F4, 0x8FDE, 0x57DF, 0x540D],
    asc ''RULE-SET,privateip,'' @ [0xD83D, 0xDD12] @ asc '' '' @ [0x79C1, 0x6709, 0x7F51, 0x7EDC] @ asc '',no-resolve'',
    asc ''RULE-SET,cnip,'' @ [0xD83C, 0xDC04, 0xFE0F] @ asc '' '' @ [0x76F4, 0x8FDE] @ asc '' IP'',
    asc ''RULE-SET,netflixip,'' @ [0xD83C, 0xDFA5] @ asc '' '' @ [0x5948, 0x98DE, 0x89C6, 0x9891],
    asc ''RULE-SET,mediaip,'' @ [0xD83C, 0xDF0D] @ asc '' '' @ [0x56FD, 0x5916, 0x5A92, 0x4F53],
    asc ''RULE-SET,gamesip,'' @ [0xD83C, 0xDFAE] @ asc '' '' @ [0x6E38, 0x620F, 0x5E73, 0x53F0],
    asc ''RULE-SET,telegramip,'' @ [0xD83D, 0xDCF2] @ asc '' '' @ [0x7535, 0x62A5, 0x6D88, 0x606F] @ asc '',no-resolve'',
    asc ''MATCH,'' @ [0xD83D, 0xDC1F] @ asc '' '' @ [0x6F0F, 0x7F51, 0x4E4B, 0x9C7C]]"

record sniffer_config =
  sn_TLS_ports :: "int list"
  sn_HTTP_ports :: "int list"
  sn_QUIC_ports :: "int list"
  sn_override_destination :: bool
  sn_enable :: bool
  sn_force_dns_mapping :: bool
  sn_skip_domain :: "jsstring list"

definition snifferConfig :: sniffer_config where
  "snifferConfig =
     \<lparr>sn_TLS_ports = [443, 8443],
      sn_HTTP_ports = [80, 8080, 8880],
      sn_QUIC_ports = [443, 8443],
      sn_override_destination = False,
      sn_enable = True,
      sn_force_dns_mapping = True,
      sn_skip_domain = [asc ''Mijia Cloud'', asc ''dlg.io.mi.com'', asc ''+.push.apple.com'']\<rparr>"

record dns_config =
  dns_enable :: bool
  dns_ipv6 :: bool
  dns_prefer_h3 :: bool
  dns_enhanced_mode :: jsstring
  dns_default_nameserver :: "jsstring list"
  dns_nameserver :: "jsstring list"
  dns_fallback :: "jsstring list"
  dns_proxy_server_nameserver :: "jsstring list"
  dns_fake_ip_filter :: "jsstring list option"

definition buildDnsConfig :: "flags \<Rightarrow> jsstring \<Rightarrow> jsstring list option \<Rightarrow> dns_config" where
  "buildDnsConfig fl mode fakeIpFilter =
     \<lparr>dns_enable = True,
      dns_ipv6 = ipv6Enabled fl,
      dns_prefer_h3 = True,
      dns_enhanced_mode = mode,
      dns_default_nameserver = [asc ''119.29.29.29'', asc ''223.5.5.5''],
      dns_nameserver = [asc ''system'', asc ''223.5.5.5'', asc ''119.29.29.29'', asc ''180.184.1.1''],
      dns_fallback =
        [asc ''quic://dns0.eu'',
         asc ''https://dns.cloudflare.com/dns-query'',
         asc ''https://dns.sb/dns-query'',
         asc ''tcp://208.67.222.222'',
         asc ''tcp://8.26.56.2''],
      dns_proxy_server_nameserver = [asc ''https://dns.alidns.com/dns-query'', asc ''tls://dot.pub''],
      dns_fake_ip_filter = fakeIpFilter\<rparr>"

record geox_url =
  geoip :: jsstring
  geosite :: jsstring
  mmdb :: jsstring
  asn :: jsstring

definition geoxURL :: geox_url where
  "geoxURL =
     \<lparr>geoip = asc ''https://gcore.jsdelivr.net/gh/Loyalsoldier/v2ray-rules-dat@release/geoip.dat'',
      geosite = asc ''https://gcore.jsdelivr.net/gh/Loyalsoldier/v2ray-rules-dat@release/geosite.dat'',
      mmdb = asc ''https://gcore.jsdelivr.net/gh/Loyalsoldier/geoip@release/Country.mmdb'',
      asn = asc ''https://gcore.jsdelivr.net/gh/Loyalsoldier/geoip@release/GeoLite2-ASN.mmdb''\<rparr>"

text \<open>
  The arrays and objects that the script keeps in module-level bindings live as long as the
  script and are shared by all calls of \<open>main\<close>. An array of strings is a cell of a store,
  known by its address: \<open>array_copy\<close> (the spread \<open>[...a]\<close>) takes a cell that is not in use
  and fills it with the entries of \<open>a\<close>, \<open>array_unshift\<close> writes to the cell it is given,
  whichever that is. \<open>baseRules\<close> is the address that the binding of that name holds. The
  objects \<open>ruleProviders\<close>, \<open>snifferConfig\<close>, \<open>dnsConfig\<close>, \<open>dnsConfigFakeIp\<close> and
  \<open>geoxURL\<close> are components of the state; no statement of \<open>main\<close> or of a function that it
  calls assigns to one of them or hands one to a function that writes. The feature flags are
  primitive constants read once, when the script is loaded; \<open>countriesMeta\<close> and the names in
  \<open>PROXY_GROUPS\<close> are only ever read by key.
\<close>

record module_state =
  ms_arrays :: "nat \<Rightarrow> jsstring list"
  ms_next :: nat
  ms_ruleProviders :: "(jsstring \<times> rule_provider) list"
  ms_snifferConfig :: sniffer_config
  ms_dnsConfig :: dns_config
  ms_dnsConfigFakeIp :: dns_config
  ms_geoxURL :: geox_url

definition baseRules_ref :: nat where
  "baseRules_ref = 0"

definition array_read :: "module_state \<Rightarrow> nat \<Rightarrow> jsstring list" where
  "array_read ms a = ms_arrays ms a"

definition array_copy :: "module_state \<Rightarrow> nat \<Rightarrow> nat \<times> module_state" where
  "array_copy ms a =
     (ms_next ms,
      ms\<lparr>ms_arrays := (ms_arrays ms)(ms_next ms := ms_arrays ms a),
         ms_next := Suc (ms_next ms)\<rparr>)"

definition array_unshift :: "module_state \<Rightarrow> nat \<Rightarrow> jsstring \<Rightarrow> module_state" where
  "array_unshift ms a v = ms\<lparr>ms_arrays := (ms_arrays ms)(a := v # ms_arrays ms a)\<rparr>"

text \<open>The module state once the script is loaded with the flags \<open>fl\<close>.\<close>

definition module_init :: "flags \<Rightarrow> module_state" where
  "module_init fl =
     \<lparr>ms_arrays = (\<lambda>a. [])(baseRules_ref := baseRules),
      ms_next = Suc baseRules_ref,
      ms_ruleProviders = ruleProviders,
      ms_snifferConfig = snifferConfig,
      ms_dnsConfig = buildDnsConfig fl (asc ''redir-host'') None,
      ms_dnsConfigFakeIp = buildDnsConfig fl (asc ''fake-ip'')
        (Some [asc ''geosite:private'',
               asc ''geosite:connectivity-check'',
               asc ''geosite:cn'',
               asc ''Mijia Cloud'',
               asc ''dig.io.mi.com'',
               asc ''localhost.ptlogin2.qq.com'',
               asc ''*.icloud.com'',
               asc ''*.stun.*.*'',
               asc ''*.stun.*.*.*'']),
      ms_geoxURL = geoxURL\<rparr>"

section \<open>Rules\<close>

definition QUIC_REJECT :: jsstring where
  "QUIC_REJECT = asc ''AND,((DST-PORT,443),(NETWORK,UDP)),REJECT''"

text \<open>
  \<open>ruleList\<close> is the address of the copy that \<open>[...baseRules]\<close> makes, and \<open>unshift\<close> writes
  to the array at that address. The value of the call is the content of \<open>ruleList\<close> when the
  call returns; the state that the call leaves is handed back with it.
\<close>

definition buildRules :: "module_state \<Rightarrow> bool \<Rightarrow> jsstring list \<times> module_state" where
  "buildRules ms quicEnabled' =
     (let (ruleList, ms) = array_copy ms baseRules_ref;
          ms = (if \<not> quicEnabled' then array_unshift ms ruleList QUIC_REJECT else ms)
      in (array_read ms ruleList, ms))"

section \<open>Proxy groups\<close>

text \<open>
  A proxy group is an object with the keys \<open>name\<close>, \<open>icon\<close> and \<open>type\<close> and any of the
  other keys; a key that the object does not have, or whose value is \<open>undefined\<close>, is
  \<open>None\<close>. \<open>group n i t\<close> is the object with the three keys alone.
\<close>

record proxy_group =
  g_name :: jsstring
  g_icon :: "jsstring option"
  g_type :: jsstring
  g_proxies :: "jsstring list option"
  g_include_all :: "bool option"
  g_filter :: "jsstring option"
  g_exclude_filter :: "jsstring option"
  g_url :: "jsstring option"
  g_interval :: "int option"
  g_tolerance :: "int option"
  g_lazy :: "bool option"

definition group :: "jsstring \<Rightarrow> jsstring \<Rightarrow> jsstring \<Rightarrow> proxy_group" where
  "group n i t =
     \<lparr>g_name = n, g_icon = Some i, g_type = t, g_proxies = None, g_include_all = None,
      g_filter = None, g_exclude_filter = None, g_url = None, g_interval = None,
      g_tolerance = None, g_lazy = None\<rparr>"

definition baseExcludeFilter :: jsstring where
  "baseExcludeFilter = asc ''0'' @ [0x005C] @ asc ''.[0-5]|'' @ [0x4F4E, 0x500D, 0x7387] @ asc ''|'' @ [0x7701, 0x6D41] @ asc ''|'' @ [0x5927, 0x6D41, 0x91CF] @ asc ''|'' @ [0x5B9E, 0x9A8C, 0x6027]"

definition landingExcludeFilter :: jsstring where
  "landingExcludeFilter = asc ''(?i)'' @ [0x5BB6, 0x5BBD] @ asc ''|'' @ [0x5BB6, 0x5EAD] @ asc ''|'' @ [0x5BB6, 0x5EAD, 0x5BBD, 0x5E26] @ asc ''|'' @ [0x5546, 0x5BBD] @ asc ''|'' @ [0x5546, 0x4E1A, 0x5BBD, 0x5E26] @ asc ''|'' @ [0x661F, 0x94FE] @ asc ''|Starlink|'' @ [0x843D, 0x5730]"

text \<open>
  \<open>countriesMeta[country]\<close>. \<open>countriesMeta\<close> is an ordinary object, so the lookup finds
  the entry of the catalog under a key of the catalog, and under a name that every object
  inherits it finds the inherited member: a function, or for \<open>__proto__\<close> the prototype
  itself. Such a member is not \<open>undefined\<close>, and it has neither \<open>icon\<close> nor \<open>pattern\<close>.
  \<open>Object_prototype\<close> lists the names that the language gives to every object.
\<close>

definition Object_prototype :: "jsstring list" where
  "Object_prototype =
     [asc ''constructor'', asc ''__defineGetter__'', asc ''__defineSetter__'',
      asc ''hasOwnProperty'', asc ''__lookupGetter__'', asc ''__lookupSetter__'',
      asc ''isPrototypeOf'', asc ''propertyIsEnumerable'', asc ''toString'', asc ''valueOf'',
      asc ''__proto__'', asc ''toLocaleString'']"

datatype lookup = Missing | Inherited | Entry meta

definition countriesMeta_at :: "jsstring \<Rightarrow> lookup" where
  "countriesMeta_at c =
     (case map_of countriesMeta c of
        Some m \<Rightarrow> Entry m
      | None \<Rightarrow> if c \<in> set Object_prototype then Inherited else Missing)"

text \<open>\<open>meta.icon\<close> and \<open>meta.pattern\<close>, \<open>None\<close> for \<open>undefined\<close>\<close>

fun meta_icon :: "lookup \<Rightarrow> jsstring option" where
  "meta_icon (Entry m) = Some (icon m)"
| "meta_icon _ = None"

fun meta_pattern :: "lookup \<Rightarrow> jsstring option" where
  "meta_pattern (Entry m) = Some (pattern m)"
| "meta_pattern _ = None"

text \<open>
  The loop of \<open>buildCountryProxyGroups\<close>: a name for which the lookup gives \<open>undefined\<close> is
  skipped (\<open>if (!meta) continue\<close>), every other name gives a group.
\<close>

fun buildCountryProxyGroups :: "jsstring list \<Rightarrow> bool \<Rightarrow> bool \<Rightarrow> proxy_group list" where
  "buildCountryProxyGroups [] landing' loadBalance' = []"
| "buildCountryProxyGroups (c # countries) landing' loadBalance' =
     (let meta = countriesMeta_at c
      in if meta = Missing then buildCountryProxyGroups countries landing' loadBalance'
         else
          (let groupType = (if loadBalance' then asc ''load-balance'' else asc ''url-test'');
               groupConfig =
                 \<lparr>g_name = c @ NODE_SUFFIX,
                  g_icon = meta_icon meta,
                  g_type = groupType,
                  g_proxies = None,
                  g_include_all = Some True,
                  g_filter = meta_pattern meta,
                  g_exclude_filter = Some
                    (if landing' then landingExcludeFilter @ asc ''|'' @ baseExcludeFilter
                     else baseExcludeFilter),
                  g_url = None, g_interval = None, g_tolerance = None, g_lazy = None\<rparr>;
               groupConfig =
                 (if \<not> loadBalance'
                  then groupConfig
                    \<lparr>g_url := Some (asc ''https://cp.cloudflare.com/generate_204''),
                     g_interval := Some 60,
                     g_tolerance := Some 20,
                     g_lazy := Some False\<rparr>
                  else groupConfig)
           in groupConfig # buildCountryProxyGroups countries landing' loadBalance'))"

text \<open>\<open>filter(Boolean)\<close> on an array of objects and \<open>null\<close>\<close>

fun filter_Boolean :: "'a option list \<Rightarrow> 'a list" where
  "filter_Boolean [] = []"
| "filter_Boolean (None # xs) = filter_Boolean xs"
| "filter_Boolean (Some x # xs) = x # filter_Boolean xs"

definition FRONT_PROXY :: jsstring where
  "FRONT_PROXY = [0x524D, 0x7F6E, 0x4EE3, 0x7406]"

definition buildProxyGroups ::
  "bool \<Rightarrow> jsstring list \<Rightarrow> proxy_group list \<Rightarrow> bool \<Rightarrow>
   jsstring list \<Rightarrow> jsstring list \<Rightarrow> jsstring list \<Rightarrow> jsstring list \<Rightarrow> proxy_group list" where
  "buildProxyGroups landing' countries countryProxyGroups lowCost
       defaultProxies' defaultProxiesDirect' defaultSelector' defaultFallback' =
     (let hasTW = ([0x53F0, 0x6E7E] \<in> set countries);
          hasHK = ([0x9999, 0x6E2F] \<in> set countries);
          hasUS = ([0x7F8E, 0x56FD] \<in> set countries);
          frontProxySelector =
            (if landing'
             then filter (\<lambda>name. name \<noteq> PROXY_GROUPS_LANDING \<and> name \<noteq> PROXY_GROUPS_FALLBACK)
                    defaultSelector'
             else [])
      in filter_Boolean
        ([Some ((group (PROXY_GROUPS_SELECT)
             (asc ''https://gcore.jsdelivr.net/gh/Koolson/Qure@master/IconSet/Color/Proxy.png'')
             (asc ''select''))
            \<lparr>g_proxies := Some defaultSelector'\<rparr>),
         Some ((group (PROXY_GROUPS_MANUAL)
             (asc ''https://gcore.jsdelivr.net/gh/shindgewongxj/WHATSINStash@master/icon/select.png'')
             (asc ''select''))
            \<lparr>g_include_all := Some True\<rparr>),
         (if landing' then Some ((group FRONT_PROXY
                (asc ''https://gcore.jsdelivr.net/gh/Koolson/Qure@master/IconSet/Color/Area.png'')
                (asc ''select''))
               \<lparr>g_include_all := Some True,
                g_exclude_filter := Some (asc ''(?i)'' @ [0x5BB6, 0x5BBD] @ asc ''|'' @ [0x5BB6, 0x5EAD] @ asc ''|'' @ [0x5BB6, 0x5EAD, 0x5BBD, 0x5E26] @ asc ''|'' @ [0x5546, 0x5BBD] @ asc ''|'' @ [0x5546, 0x4E1A, 0x5BBD, 0x5E26] @ asc ''|'' @ [0x661F, 0x94FE] @ asc ''|Starlink|'' @ [0x843D, 0x5730]),
                g_proxies := Some frontProxySelector\<rparr>)
           else None),
         (if landing' then Some ((group (PROXY_GROUPS_LANDING)
                (asc ''https://gcore.jsdelivr.net/gh/Koolson/Qure@master/IconSet/Color/Airport.png'')
                (asc ''select''))
               \<lparr>g_include_all := Some True,
                g_filter := Some (asc ''(?i)'' @ [0x5BB6, 0x5BBD] @ asc ''|'' @ [0x5BB6, 0x5EAD] @ asc ''|'' @ [0x5BB6, 0x5EAD, 0x5BBD, 0x5E26] @ asc ''|'' @ [0x5546, 0x5BBD] @ asc ''|'' @ [0x5546, 0x4E1A, 0x5BBD, 0x5E26] @ asc ''|'' @ [0x661F, 0x94FE] @ asc ''|Starlink|'' @ [0x843D, 0x5730])\<rparr>)
           else None),
         Some ((group (PROXY_GROUPS_FALLBACK)
             (asc ''https://gcore.jsdelivr.net/gh/Koolson/Qure@master/IconSet/Color/Bypass.png'')
             (asc ''fallback''))
            \<lparr>g_url := Some (asc ''https://cp.cloudflare.com/generate_204''),
             g_proxies := Some defaultFallback',
             g_interval := Some 180,
             g_tolerance := Some 20,
             g_lazy := Some False\<rparr>),
         Some ((group ([0xD83D, 0xDD12] @ asc '' '' @ [0x79C1, 0x6709, 0x7F51, 0x7EDC])
             (asc ''https://gcore.jsdelivr.net/gh/Koolson/Qure@master/IconSet/Color/Private.png'')
             (asc ''select''))
            \<lparr>g_proxies := Some [PROXY_GROUPS_DIRECT]\<rparr>),
         Some ((group ([0xD83D, 0xDED1] @ asc '' '' @ [0x5E7F, 0x544A, 0x57DF, 0x540D])
             (asc ''https://gcore.jsdelivr.net/gh/Koolson/Qure@master/IconSet/Color/AdBlack.png'')
             (asc ''select''))
            \<lparr>g_proxies := Some [asc ''REJECT'', asc ''REJECT-DROP'', PROXY_GROUPS_DIRECT]\<rparr>),
         Some ((group ([0xD83D, 0xDCCB] @ asc '' Trackerslist'')
             (asc ''https://gcore.jsdelivr.net/gh/Koolson/Qure@master/IconSet/Color/AdBlack.png'')
             (asc ''select''))
            \<lparr>g_proxies := Some [asc ''REJECT'', asc ''REJECT-DROP'', PROXY_GROUPS_DIRECT]\<rparr>),
         Some ((group ([0x2B07, 0xFE0F] @ asc '' '' @ [0x76F4, 0x8FDE, 0x8F6F, 0x4EF6])
             (asc ''https://gcore.jsdelivr.net/gh/Koolson/Qure@master/IconSet/Color/Terminal.png'')
             (asc ''select''))
            \<lparr>g_proxies := Some [PROXY_GROUPS_DIRECT]\<rparr>),
         Some ((group ([0xD83E, 0xDE9F] @ asc '' '' @ [0x5FAE, 0x8F6F, 0x670D, 0x52A1])
             (asc ''https://gcore.jsdelivr.net/gh/hazicy/override-rules@master/icons/Microsoft_Copilot.png'')
             (asc ''select''))
            \<lparr>g_proxies := Some defaultProxiesDirect'\<rparr>),
         Some ((group ([0xD83C, 0xDF4E] @ asc '' '' @ [0x82F9, 0x679C, 0x670D, 0x52A1])
             (asc ''https://gcore.jsdelivr.net/gh/Koolson/Qure@master/IconSet/Color/Apple.png'')
             (asc ''select''))
            \<lparr>g_proxies := Some defaultProxiesDirect'\<rparr>),
         Some ((group ([0xD83C, 0xDDEC] @ asc '' '' @ [0x8C37, 0x6B4C, 0x670D, 0x52A1])
             (asc ''https://gcore.jsdelivr.net/gh/hazicy/override-rules@master/icons/Google.png'')
             (asc ''select''))
            \<lparr>g_proxies := Some defaultProxiesDirect'\<rparr>),
         Some ((group ([0xD83C, 0xDFAE] @ asc '' '' @ [0x6E38, 0x620F, 0x670D, 0x52A1])
             (asc ''https://gcore.jsdelivr.net/gh/Koolson/Qure@master/IconSet/Color/Game.png'')
             (asc ''select''))
            \<lparr>g_proxies := Some defaultProxiesDirect'\<rparr>),
         Some ((group ([0xD83C, 0xDFA5] @ asc '' '' @ [0x5948, 0x98DE, 0x89C6, 0x9891])
             (asc ''https://gcore.jsdelivr.net/gh/Koolson/Qure@master/IconSet/Color/Netflix.png'')
             (asc ''select''))
            \<lparr>g_proxies := Some defaultProxies'\<rparr>),
         Some ((group ([0xD83D, 0xDCFD, 0xFE0F] @ asc '' '' @ [0x8FEA, 0x58EB, 0x5C3C] @ asc ''+'')
             (asc ''https://gcore.jsdelivr.net/gh/Koolson/Qure@master/IconSet/Color/Disney.png'')
             (asc ''select''))
            \<lparr>g_proxies := Some defaultProxies'\<rparr>),
         Some ((group ([0xD83C, 0xDF9E, 0xFE0F] @ asc '' Max'')
             (asc ''https://gcore.jsdelivr.net/gh/Koolson/Qure@master/IconSet/Color/HBO.png'')
             (asc ''select''))
            \<lparr>g_proxies := Some defaultProxies'\<rparr>),
         Some ((group ([0xD83C, 0xDFAC] @ asc '' Prime Video'')
             (asc ''https://gcore.jsdelivr.net/gh/Koolson/Qure@master/IconSet/Color/Prime.png'')
             (asc ''select''))
            \<lparr>g_proxies := Some defaultProxies'\<rparr>),
         Some ((group ([0xD83C, 0xDF4E] @ asc '' Apple TV+'')
             (asc ''https://gcore.jsdelivr.net/gh/Koolson/Qure@master/IconSet/Color/Apple.png'')
             (asc ''select''))
            \<lparr>g_proxies := Some defaultProxies'\<rparr>),
         Some ((group ([0xD83D, 0xDCF9] @ asc '' '' @ [0x6CB9, 0x7BA1, 0x89C6, 0x9891])
             (asc ''https://gcore.jsdelivr.net/gh/Koolson/Qure@master/IconSet/Color/YouTube.png'')
             (asc ''select''))
            \<lparr>g_proxies := Some defaultProxies'\<rparr>),
         Some ((group ([0xD83C, 0xDFB5] @ asc '' TikTok'')
             (asc ''https://gcore.jsdelivr.net/gh/Koolson/Qure@master/IconSet/Color/TikTok.png'')
             (asc ''select''))
            \<lparr>g_proxies := Some defaultProxies'\<rparr>),
         Some ((group ([0xD83D, 0xDCFA] @ asc '' '' @ [0x54D4, 0x54E9, 0x54D4, 0x54E9])
             (asc ''https://gcore.jsdelivr.net/gh/Koolson/Qure@master/IconSet/Color/bilibili.png'')
             (asc ''select''))
            \<lparr>g_proxies := Some (if hasTW \<and> hasHK then [PROXY_GROUPS_DIRECT, [0x53F0, 0x6E7E, 0x8282, 0x70B9], [0x9999, 0x6E2F, 0x8282, 0x70B9]] else defaultProxiesDirect')\<rparr>),
         Some ((group ([0xD83C, 0xDFB6] @ asc '' Spotify'')
             (asc ''https://gcore.jsdelivr.net/gh/Koolson/Qure@master/IconSet/Color/Spotify.png'')
             (asc ''select''))
            \<lparr>g_proxies := Some defaultProxies'\<rparr>),
         Some ((group ([0xD83C, 0xDF0D] @ asc '' '' @ [0x56FD, 0x5916, 0x5A92, 0x4F53])
             (asc ''https://gcore.jsdelivr.net/gh/Koolson/Qure@master/IconSet/Color/GlobalMedia.png'')
             (asc ''select''))
            \<lparr>g_proxies := Some defaultProxies'\<rparr>),
         Some ((group ([0xD83C, 0xDFAE] @ asc '' '' @ [0x6E38, 0x620F, 0x5E73, 0x53F0])
             (asc ''https://gcore.jsdelivr.net/gh/Koolson/Qure@master/IconSet/Color/Game.png'')
             (asc ''select''))
            \<lparr>g_proxies := Some defaultProxies'\<rparr>),
         Some ((group ([0xD83E, 0xDD16] @ asc '' AI '' @ [0x5E73, 0x53F0])
             (asc ''https://gcore.jsdelivr.net/gh/hazicy/override-rules@master/icons/ChatGPT.png'')
             (asc ''select''))
            \<lparr>g_proxies := Some defaultProxies'\<rparr>),
         Some ((group ([0xD83D, 0xDCC8] @ asc '' '' @ [0x7F51, 0x7EDC, 0x6D4B, 0x8BD5])
             (asc ''https://gcore.jsdelivr.net/gh/Koolson/Qure@master/IconSet/Color/Speedtest.png'')
             (asc ''select''))
            \<lparr>g_proxies := Some defaultProxies'\<rparr>),
         Some ((group ([0xD83E, 0xDDF1] @ asc '' '' @ [0x4EE3, 0x7406, 0x9876, 0x7EA7, 0x57DF, 0x540D])
             (asc ''https://gcore.jsdelivr.net/gh/Koolson/Qure@master/IconSet/Color/Proxy.png'')
             (asc ''select''))
            \<lparr>g_proxies := Some defaultProxies'\<rparr>),
         Some ((group ([0xD83E, 0xDDF1] @ asc '' '' @ [0x4EE3, 0x7406, 0x57DF, 0x540D])
             (asc ''https://gcore.jsdelivr.net/gh/Koolson/Qure@master/IconSet/Color/Proxy.png'')
             (asc ''select''))
            \<lparr>g_proxies := Some defaultProxies'\<rparr>),
         Some ((group ([0xD83D, 0xDEE1, 0xFE0F] @ asc '' '' @ [0x76F4, 0x8FDE, 0x57DF, 0x540D])
             (asc ''https://gcore.jsdelivr.net/gh/Koolson/Qure@master/IconSet/Color/Direct.png'')
             (asc ''select''))
            \<lparr>g_proxies := Some [PROXY_GROUPS_DIRECT]\<rparr>),
         Some ((group ([0xD83C, 0xDC04, 0xFE0F] @ asc '' '' @ [0x76F4, 0x8FDE] @ asc '' IP'')
             (asc ''https://gcore.jsdelivr.net/gh/Koolson/Qure@master/IconSet/Color/Direct.png'')
             (asc ''select''))
            \<lparr>g_proxies := Some [PROXY_GROUPS_DIRECT]\<rparr>),
         Some ((group ([0xD83D, 0xDCF2] @ asc '' '' @ [0x7535, 0x62A5, 0x6D88, 0x606F])
             (asc ''https://gcore.jsdelivr.net/gh/Koolson/Qure@master/IconSet/Color/Telegram.png'')
             (asc ''select''))
            \<lparr>g_proxies := Some defaultProxies'\<rparr>),
         Some ((group (PROXY_GROUPS_DIRECT)
             (asc ''https://gcore.jsdelivr.net/gh/Koolson/Qure@master/IconSet/Color/Direct.png'')
             (asc ''select''))
            \<lparr>g_proxies := Some [asc ''DIRECT'', PROXY_GROUPS_SELECT]\<rparr>),
         Some ((group ([0xD83D, 0xDC1F] @ asc '' '' @ [0x6F0F, 0x7F51, 0x4E4B, 0x9C7C])
             (asc ''https://gcore.jsdelivr.net/gh/Koolson/Qure@master/IconSet/Color/Final.png'')
             (asc ''select''))
            \<lparr>g_proxies := Some defaultProxies'\<rparr>),
         (if lowCost then Some ((group (PROXY_GROUPS_LOW_COST)
                (asc ''https://gcore.jsdelivr.net/gh/Koolson/Qure@master/IconSet/Color/Lab.png'')
                (asc ''url-test''))
               \<lparr>g_url := Some (asc ''https://cp.cloudflare.com/generate_204''),
                g_include_all := Some True,
                g_filter := Some (asc ''(?i)0'' @ [0x005C] @ asc ''.[0-5]|'' @ [0x4F4E, 0x500D, 0x7387] @ asc ''|'' @ [0x7701, 0x6D41] @ asc ''|'' @ [0x5927, 0x6D41, 0x91CF] @ asc ''|'' @ [0x5B9E, 0x9A8C, 0x6027])\<rparr>)
           else None)]
         @ map Some countryProxyGroups))"

section \<open>The entry point\<close>

text \<open>The settings that \<open>main\<close> adds when \<open>full\<close> is set.\<close>

record full_settings =
  fs_mixed_port :: int
  fs_redir_port :: int
  fs_tproxy_port :: int
  fs_routing_mark :: int
  fs_allow_lan :: bool
  fs_ipv6 :: bool
  fs_mode :: jsstring
  fs_unified_delay :: bool
  fs_tcp_concurrent :: bool
  fs_find_process_mode :: jsstring
  fs_log_level :: jsstring
  fs_geodata_loader :: jsstring
  fs_external_controller :: jsstring
  fs_disable_keep_alive :: bool
  fs_profile_store_selected :: bool

record result_config =
  r_proxies :: "proxy list option"
  r_full :: "full_settings option"
  r_proxy_groups :: "proxy_group list"
  r_rule_providers :: "(jsstring \<times> rule_provider) list"
  r_rules :: "jsstring list"
  r_sniffer :: sniffer_config
  r_dns :: dns_config
  r_geodata_mode :: bool
  r_geox_url :: geox_url

definition GLOBAL :: jsstring where
  "GLOBAL = asc ''GLOBAL''"

text \<open>
  \<open>main\<close> reads \<open>config.proxies\<close> and nothing else of its argument. The array
  \<open>proxyGroups\<close> that \<open>buildProxyGroups\<close> returns is new, and \<open>push\<close> adds the group
  \<open>GLOBAL\<close> at its end; \<open>resultConfig\<close> is a new object. The result is what that object
  holds when \<open>main\<close> returns, and with it comes the module state that the call leaves.
\<close>

definition main :: "flags \<Rightarrow> module_state \<Rightarrow> 'a config_scheme \<Rightarrow> result_config \<times> module_state" where
  "main fl ms cfg =
     (let resultConfig = \<lparr>proxies = proxies cfg\<rparr>;
          countryInfo = parseCountries resultConfig;
          lowCost = hasLowCost resultConfig;
          countryGroupNames = getCountryGroupNames countryInfo (countryThreshold fl);
          countries = stripNodeSuffix countryGroupNames;
          lists = buildBaseLists (landing fl) lowCost countryGroupNames;
          countryProxyGroups = buildCountryProxyGroups countries (landing fl) (loadBalance fl);
          proxyGroups = buildProxyGroups (landing fl) countries countryProxyGroups lowCost
            (defaultProxies lists) (defaultProxiesDirect lists)
            (defaultSelector lists) (defaultFallback lists);
          globalProxies = map g_name proxyGroups;
          proxyGroups = proxyGroups @
            [(group GLOBAL
                (asc ''https://gcore.jsdelivr.net/gh/Koolson/Qure@master/IconSet/Color/Global.png'')
                (asc ''select''))
              \<lparr>g_include_all := Some True, g_proxies := Some globalProxies\<rparr>];
          (finalRules, ms) = buildRules ms (quicEnabled fl);
          full =
            (if fullConfig fl
             then Some
               \<lparr>fs_mixed_port = 7890,
                fs_redir_port = 7892,
                fs_tproxy_port = 7893,
                fs_routing_mark = 7894,
                fs_allow_lan = True,
                fs_ipv6 = ipv6Enabled fl,
                fs_mode = asc ''rule'',
                fs_unified_delay = True,
                fs_tcp_concurrent = True,
                fs_find_process_mode = asc ''off'',
                fs_log_level = asc ''info'',
                fs_geodata_loader = asc ''standard'',
                fs_external_controller = asc '':9999'',
                fs_disable_keep_alive = (\<not> keepAliveEnabled fl),
                fs_profile_store_selected = True\<rparr>
             else None)
      in (\<lparr>r_proxies = proxies cfg,
           r_full = full,
           r_proxy_groups = proxyGroups,
           r_rule_providers = ms_ruleProviders ms,
           r_rules = finalRules,
           r_sniffer = ms_snifferConfig ms,
           r_dns = (if fakeIPEnabled fl then ms_dnsConfigFakeIp ms else ms_dnsConfig ms),
           r_geodata_mode = True,
           r_geox_url = ms_geoxURL ms\<rparr>,
          ms))"

section \<open>Notions used in the statements\<close>

text \<open>The count that \<open>countryCounts\<close> holds for a region: 0 for a region that is not a key.\<close>

definition count_of :: "counts \<Rightarrow> jsstring \<Rightarrow> nat" where
  "count_of cs c = (case map_of cs c of None \<Rightarrow> 0 | Some n \<Rightarrow> n)"

text \<open>The same for the array that \<open>parseCountries\<close> returns.\<close>

definition region_count :: "country_info list \<Rightarrow> jsstring \<Rightarrow> nat" where
  "region_count infos c = count_of (map (\<lambda>i. (country i, count i)) infos) c"

text \<open>The first region, in the order of the catalog, whose expression matches a name.\<close>

definition first_region :: "jsstring \<Rightarrow> jsstring option" where
  "first_region n = map_option fst (find (\<lambda>(c, r). test r n) compiledRegex)"

text \<open>The proxy is not skipped, and \<open>c\<close> is the first region that its name matches.\<close>

definition counted :: "jsstring \<Rightarrow> proxy \<Rightarrow> bool" where
  "counted c p \<longleftrightarrow>
     \<not> test ispRegex (name_or_empty p) \<and> first_region (name_or_empty p) = Some c"

text \<open>The string reads \<open>true\<close>, each letter in upper or lower case.\<close>

definition true_any_case :: "jsstring \<Rightarrow> bool" where
  "true_any_case s = list_all2 (\<lambda>c l. c = l \<or> c = l - 32) s (asc ''true'')"

text \<open>The entries of \<open>spec\<close> in \<open>buildFeatureFlags\<close>: the key of an argument and the flag that it sets.\<close>

definition flag_table :: "(jsstring \<times> (flags \<Rightarrow> bool)) list" where
  "flag_table =
     [(asc ''loadbalance'', loadBalance), (asc ''landing'', landing),
      (asc ''ipv6'', ipv6Enabled), (asc ''full'', fullConfig),
      (asc ''keepalive'', keepAliveEnabled), (asc ''fakeip'', fakeIPEnabled),
      (asc ''quic'', quicEnabled)]"

text \<open>A value whose \<open>typeof\<close> is neither \<open>boolean\<close> nor \<open>string\<close>.\<close>

definition not_bool_or_string :: "jsval \<Rightarrow> bool" where
  "not_bool_or_string v = (case v of JBool b \<Rightarrow> False | JString s \<Rightarrow> False | _ \<Rightarrow> True)"

text \<open>The names of the groups that \<open>buildProxyGroups\<close> builds itself, in front of the region pools.\<close>

definition fixed_names :: "bool \<Rightarrow> bool \<Rightarrow> jsstring list" where
  "fixed_names l lc = map g_name (buildProxyGroups l [] [] lc [] [] [] [])"

text \<open>The members of the first group of a list that bears a given name.\<close>

definition members :: "proxy_group list \<Rightarrow> jsstring \<Rightarrow> jsstring list option" where
  "members gs n = (case find (\<lambda>g. g_name g = n) gs of None \<Rightarrow> None | Some g \<Rightarrow> g_proxies g)"


text \<open>
  The groups that \<open>main\<close> has built before it adds the group \<open>GLOBAL\<close> (the value of
  \<open>proxyGroups\<close> after the call of \<open>buildProxyGroups\<close>), the region names that it passes to
  \<open>buildCountryProxyGroups\<close>, and its top-level selector list.
\<close>

definition main_proxyGroups :: "flags \<Rightarrow> 'a config_scheme \<Rightarrow> proxy_group list" where
  "main_proxyGroups fl cfg =
     (let resultConfig = \<lparr>proxies = proxies cfg\<rparr>;
          countryInfo = parseCountries resultConfig;
          lowCost = hasLowCost resultConfig;
          countryGroupNames = getCountryGroupNames countryInfo (countryThreshold fl);
          countries = stripNodeSuffix countryGroupNames;
          lists = buildBaseLists (landing fl) lowCost countryGroupNames;
          countryProxyGroups = buildCountryProxyGroups countries (landing fl) (loadBalance fl)
      in buildProxyGroups (landing fl) countries countryProxyGroups lowCost
           (defaultProxies lists) (defaultProxiesDirect lists)
           (defaultSelector lists) (defaultFallback lists))"

definition main_defaultSelector :: "flags \<Rightarrow> 'a config_scheme \<Rightarrow> jsstring list" where
  "main_defaultSelector fl cfg =
     defaultSelector (buildBaseLists (landing fl) (hasLowCost cfg)
       (getCountryGroupNames (parseCountries cfg) (countryThreshold fl)))"

definition main_countries :: "flags \<Rightarrow> 'a config_scheme \<Rightarrow> jsstring list" where
  "main_countries fl cfg =
     stripNodeSuffix (getCountryGroupNames (parseCountries cfg) (countryThreshold fl))"

text \<open>
  The module-level bindings hold what they held when the script was loaded with the flags
  \<open>fl\<close>: the array \<open>baseRules\<close> has its entries and its cell is in use, and the objects are
  as \<open>module_init\<close> made them.
\<close>

definition loaded :: "flags \<Rightarrow> module_state \<Rightarrow> bool" where
  "loaded fl ms \<longleftrightarrow>
     array_read ms baseRules_ref = baseRules
     \<and> baseRules_ref < ms_next ms
     \<and> ms_ruleProviders ms = ruleProviders
     \<and> ms_snifferConfig ms = snifferConfig
     \<and> ms_dnsConfig ms = ms_dnsConfig (module_init fl)
     \<and> ms_dnsConfigFakeIp ms = ms_dnsConfigFakeIp (module_init fl)
     \<and> ms_geoxURL ms = geoxURL"

text \<open>Calls of \<open>main\<close> one after the other, each on the module state that the call before it left.\<close>

fun run_all :: "flags \<Rightarrow> module_state \<Rightarrow> 'a config_scheme list \<Rightarrow> result_config list \<times> module_state" where
  "run_all fl ms [] = ([], ms)"
| "run_all fl ms (cfg # cfgs) =
     (let (r, ms) = main fl ms cfg;
          (rs, ms) = run_all fl ms cfgs
      in (r # rs, ms))"

text \<open>A string begins with, or contains, another.\<close>

definition starts_with :: "jsstring \<Rightarrow> jsstring \<Rightarrow> bool" where
  "starts_with p s \<longleftrightarrow> take (length p) s = p"

fun contains :: "jsstring \<Rightarrow> jsstring \<Rightarrow> bool" where
  "contains sub [] = (sub = [])"
| "contains sub (c # cs) = (starts_with sub (c # cs) \<or> contains sub cs)"

text \<open>Inputs of the worked examples.\<close>

definition HK_US :: proxy where
  "HK_US = \<lparr>proxy_name = Some (asc ''HK-US 01'')\<rparr>"

definition US_01 :: proxy where
  "US_01 = \<lparr>proxy_name = Some (asc ''US-01 '' @ [0x7F8E, 0x56FD])\<rparr>"

definition Starlink_US :: proxy where
  "Starlink_US = \<lparr>proxy_name = Some (asc ''starlink US 0.5x'')\<rparr>"

definition fl_landing :: flags where
  "fl_landing = \<lparr>loadBalance = False, landing = True, ipv6Enabled = False, fullConfig = False,
     keepAliveEnabled = False, fakeIPEnabled = False, quicEnabled = False, countryThreshold = 2\<rparr>"

definition scenario :: config where
  "scenario = \<lparr>proxies = Some
     [\<lparr>proxy_name = Some (asc ''HK-01 '' @ [0x9999, 0x6E2F])\<rparr>,
      \<lparr>proxy_name = Some (asc ''US-01 '' @ [0x7F8E, 0x56FD])\<rparr>,
      \<lparr>proxy_name = Some (asc ''US-02 '' @ [0x4F4E, 0x500D, 0x7387] @ asc '' '' @ [0x7F8E, 0x56FD])\<rparr>]\<rparr>"

definition ex_pool :: proxy_group where
  "ex_pool = hd (buildCountryProxyGroups [[0x9999, 0x6E2F]] True False)"

section \<open>Auxiliary facts\<close>

subsection \<open>Classification\<close>

lemma count_of_increment:
  "count_of (increment cs k) c = count_of cs c + (if c = k then 1 else 0)"
  by (induction cs k rule: increment.induct) (auto simp: count_of_def)

lemma sum_increment: "sum_list (map snd (increment cs k)) = sum_list (map snd cs) + 1"
  by (induction cs k rule: increment.induct) auto

lemma count_first_match_find:
  "count_first_match rs n cs =
     (case find (\<lambda>(c, r). test r n) rs of None \<Rightarrow> cs | Some (c, r) \<Rightarrow> increment cs c)"
  by (induction rs n cs rule: count_first_match.induct) auto

lemma count_proxy_skipped:
  "test ispRegex (name_or_empty p) \<Longrightarrow> count_proxy cs p = cs"
  by (simp add: count_proxy_def)

lemma count_proxy_count_of:
  assumes "\<not> test ispRegex (name_or_empty p)"
  shows "count_of (count_proxy cs p) c =
         count_of cs c + (if first_region (name_or_empty p) = Some c then 1 else 0)"
  using assms
  by (auto simp: count_proxy_def Let_def count_first_match_find first_region_def
      count_of_increment split: option.splits)

lemma count_proxy_sum:
  "sum_list (map snd (count_proxy cs p)) \<le> sum_list (map snd cs) + 1"
  by (auto simp: count_proxy_def Let_def count_first_match_find sum_increment
      split: option.splits)

lemma find_single:
  "filter P xs = [x] \<Longrightarrow> find P xs = Some x"
  by (induction xs) (auto split: if_splits simp: filter_empty_conv find_None_iff)

lemma count_proxy_single:
  assumes "\<not> test ispRegex (name_or_empty p)"
    and "filter (\<lambda>(k, r). test r (name_or_empty p)) compiledRegex = [(k, r)]"
  shows "count_proxy cs p = increment cs k"
  using assms(1) find_single[OF assms(2)]
  by (simp add: count_proxy_def Let_def count_first_match_find)

lemma count_proxies_count_of:
  "count_of (count_proxies ps cs) c = count_of cs c + length (filter (counted c) ps)"
proof (induction ps arbitrary: cs)
  case Nil
  then show ?case by simp
next
  case (Cons p ps)
  show ?case
  proof (cases "test ispRegex (name_or_empty p)")
    case True
    then show ?thesis using Cons.IH[of cs]
      by (simp add: count_proxy_skipped counted_def)
  next
    case False
    then show ?thesis using Cons.IH[of "count_proxy cs p"]
      by (simp add: count_proxy_count_of counted_def)
  qed
qed

lemma region_count_parseCountries:
  "region_count (parseCountries cfg) c = length (filter (counted c) (proxies_or_empty cfg))"
proof -
  have "map (\<lambda>i. (country i, count i)) (parseCountries cfg) = count_proxies (proxies_or_empty cfg) []"
    by (simp add: parseCountries_def comp_def case_prod_beta)
  then show ?thesis
    by (simp add: region_count_def count_proxies_count_of) (simp add: count_of_def)
qed

lemma catalog_order: "map fst compiledRegex = map fst countriesMeta"
  by (simp add: compiledRegex_def comp_def case_prod_beta)

lemma count_proxies_filter:
  "count_proxies (filter (\<lambda>p. \<not> test ispRegex (name_or_empty p)) ps) cs = count_proxies ps cs"
  by (induction ps arbitrary: cs) (auto simp: count_proxy_skipped)

lemma increment_keys: "fst ` set (increment cs k) = insert k (fst ` set cs)"
  by (induction cs k rule: increment.induct) auto

lemma increment_distinct: "distinct (map fst cs) \<Longrightarrow> distinct (map fst (increment cs k))"
  by (induction cs k rule: increment.induct) (auto simp: increment_keys)

lemma count_first_match_keys:
  "fst ` set (count_first_match rs n cs) \<subseteq> fst ` set cs \<union> fst ` set rs"
  by (induction rs n cs rule: count_first_match.induct) (auto simp: increment_keys)

lemma count_first_match_distinct:
  "distinct (map fst cs) \<Longrightarrow> distinct (map fst (count_first_match rs n cs))"
  by (induction rs n cs rule: count_first_match.induct) (auto simp: increment_distinct)

lemma count_proxy_keys:
  "fst ` set (count_proxy cs p) \<subseteq> fst ` set cs \<union> fst ` set compiledRegex"
  using count_first_match_keys[of compiledRegex "name_or_empty p" cs]
  by (auto simp: count_proxy_def Let_def)

lemma count_proxy_distinct:
  "distinct (map fst cs) \<Longrightarrow> distinct (map fst (count_proxy cs p))"
  by (simp add: count_proxy_def Let_def count_first_match_distinct)

lemma count_proxies_keys:
  "fst ` set (count_proxies ps cs) \<subseteq> fst ` set cs \<union> fst ` set compiledRegex"
proof (induction ps arbitrary: cs)
  case Nil
  then show ?case by simp
next
  case (Cons p ps)
  show ?case using Cons.IH[of "count_proxy cs p"] count_proxy_keys[of cs p]
    by auto
qed

lemma count_proxies_distinct:
  "distinct (map fst cs) \<Longrightarrow> distinct (map fst (count_proxies ps cs))"
  by (induction ps arbitrary: cs) (auto simp: count_proxy_distinct)

lemma parseCountries_keys:
  "country ` set (parseCountries cfg) \<subseteq> fst ` set countriesMeta"
proof -
  have "country ` set (parseCountries cfg) = fst ` set (count_proxies (proxies_or_empty cfg) [])"
    by (force simp: parseCountries_def image_iff)
  moreover have "fst ` set compiledRegex = fst ` set countriesMeta"
    using catalog_order by (metis set_map)
  ultimately show ?thesis using count_proxies_keys[of "proxies_or_empty cfg" "[]"] by simp
qed

lemma parseCountries_distinct: "distinct (map country (parseCountries cfg))"
proof -
  have "map country (parseCountries cfg) = map fst (count_proxies (proxies_or_empty cfg) [])"
    by (simp add: parseCountries_def comp_def case_prod_beta)
  then show ?thesis using count_proxies_distinct[of "[]" "proxies_or_empty cfg"] by simp
qed

lemma region_count_member:
  "distinct (map country infos) \<Longrightarrow> i \<in> set infos \<Longrightarrow> region_count infos (country i) = count i"
proof -
  assume d: "distinct (map country infos)" and m: "i \<in> set infos"
  have "distinct (map fst (map (\<lambda>i. (country i, count i)) infos))"
    using d by (simp add: comp_def)
  moreover have "(country i, count i) \<in> set (map (\<lambda>i. (country i, count i)) infos)"
    using m by auto
  ultimately have "map_of (map (\<lambda>i. (country i, count i)) infos) (country i) = Some (count i)"
    by (rule map_of_is_SomeI)
  then show ?thesis by (simp add: region_count_def count_of_def)
qed

lemma region_count_pos:
  "0 < region_count infos c \<Longrightarrow> c \<in> country ` set infos"
proof -
  assume "0 < region_count infos c"
  then have "map_of (map (\<lambda>i. (country i, count i)) infos) c \<noteq> None"
    by (auto simp: region_count_def count_of_def split: option.splits)
  then have "c \<in> fst ` set (map (\<lambda>i. (country i, count i)) infos)"
    by (simp add: map_of_eq_None_iff)
  then show ?thesis by (auto simp: image_iff)
qed

lemma parseCountries_proxies: "parseCountries \<lparr>proxies = proxies cfg\<rparr> = parseCountries cfg"
  by (simp add: parseCountries_def proxies_or_empty_def)

lemma hasLowCost_proxies: "hasLowCost \<lparr>proxies = proxies cfg\<rparr> = hasLowCost cfg"
  by (simp add: hasLowCost_def proxies_or_empty_def)

text \<open>
  No pattern of the catalog has a character that a regular expression reads as an operator,
  except the bar: \<open>newRegExp\<close> covers them.
\<close>

lemma catalog_patterns_literal:
  "list_all (\<lambda>(c, m). list_all (\<lambda>u. u \<notin> set [92, 94, 36, 46, 42, 43, 63, 40, 41, 91, 93, 123, 125])
      (pattern m)) countriesMeta"
  by code_simp

subsection \<open>Flags\<close>

lemma toLowerCase_true: "toLowerCase s = asc ''true'' \<longleftrightarrow> true_any_case s"
  unfolding true_any_case_def
  apply (simp add: toLowerCase_def asc_def list_all2_Cons2 toLowerCase_cu_def)
  apply (auto simp: toLowerCase_cu_def split: if_splits)
  done

lemma parseBool_iff:
  "parseBool v \<longleftrightarrow> v = JBool True \<or> (\<exists>s. v = JString s \<and> (true_any_case s \<or> s = asc ''1''))"
  by (cases v) (auto simp: toLowerCase_true)

lemma parseBool_other: "not_bool_or_string v \<Longrightarrow> \<not> parseBool v"
  by (cases v) (auto simp: not_bool_or_string_def)

lemma flags_parse:
  "(k, sel) \<in> set flag_table \<Longrightarrow> sel (buildFeatureFlags args t) = parseBool (args k)"
  by (auto simp: flag_table_def buildFeatureFlags_def)

subsection \<open>Names of region groups\<close>

lemma replace_at_end_self: "replace_at_end s s = []"
  by (cases s) auto

lemma replace_at_end_append: "replace_at_end s (c @ s) = c"
proof (induction c)
  case Nil
  then show ?case by (simp add: replace_at_end_self)
next
  case (Cons a c)
  have "a # c @ s \<noteq> s"
  proof
    assume "a # c @ s = s"
    then have "length (a # c @ s) = length s" by simp
    then show False by simp
  qed
  with Cons show ?case by simp
qed

lemma strip_names:
  "stripNodeSuffix (getCountryGroupNames infos t) =
     map country (filter (\<lambda>i. int (count i) \<ge> t) infos)"
  by (simp add: stripNodeSuffix_def getCountryGroupNames_def comp_def replace_at_end_append)

subsection \<open>Groups\<close>

lemma group_sel [simp]:
  "g_name (group n i t) = n" "g_icon (group n i t) = Some i" "g_type (group n i t) = t"
  "g_proxies (group n i t) = None" "g_include_all (group n i t) = None"
  "g_filter (group n i t) = None" "g_exclude_filter (group n i t) = None"
  "g_url (group n i t) = None" "g_interval (group n i t) = None"
  "g_tolerance (group n i t) = None" "g_lazy (group n i t) = None"
  by (simp_all add: group_def)

lemma filter_Boolean_append: "filter_Boolean (xs @ ys) = filter_Boolean xs @ filter_Boolean ys"
  by (induction xs rule: filter_Boolean.induct) auto

lemma filter_Boolean_map_Some [simp]: "filter_Boolean (map Some xs) = xs"
  by (induction xs) auto

lemma names_buildProxyGroups:
  "map g_name (buildProxyGroups l cs cpg lc dp dpd ds df) = fixed_names l lc @ map g_name cpg"
  unfolding fixed_names_def buildProxyGroups_def Let_def filter_Boolean_append
  by simp

lemma GLOBAL_not_fixed: "GLOBAL \<notin> set (fixed_names l lc)"
proof -
  have "list_all (\<lambda>n. n \<noteq> GLOBAL) (fixed_names True True)" by code_simp
  moreover have "list_all (\<lambda>n. n \<noteq> GLOBAL) (fixed_names True False)" by code_simp
  moreover have "list_all (\<lambda>n. n \<noteq> GLOBAL) (fixed_names False True)" by code_simp
  moreover have "list_all (\<lambda>n. n \<noteq> GLOBAL) (fixed_names False False)" by code_simp
  ultimately show ?thesis
    by (cases l; cases lc) (auto simp: list_all_iff)
qed

lemma catalog_not_fixed:
  assumes "c \<in> fst ` set countriesMeta"
  shows "c @ NODE_SUFFIX \<notin> set (fixed_names l lc)"
proof -
  have "list_all (\<lambda>k. list_all (\<lambda>n. n \<noteq> k @ NODE_SUFFIX) (fixed_names True True)) (map fst countriesMeta)" by code_simp
  moreover have "list_all (\<lambda>k. list_all (\<lambda>n. n \<noteq> k @ NODE_SUFFIX) (fixed_names True False)) (map fst countriesMeta)" by code_simp
  moreover have "list_all (\<lambda>k. list_all (\<lambda>n. n \<noteq> k @ NODE_SUFFIX) (fixed_names False True)) (map fst countriesMeta)" by code_simp
  moreover have "list_all (\<lambda>k. list_all (\<lambda>n. n \<noteq> k @ NODE_SUFFIX) (fixed_names False False)) (map fst countriesMeta)" by code_simp
  ultimately show ?thesis using assms
    by (cases l; cases lc) (auto simp: list_all_iff)
qed

lemma fixed_names_distinct: "distinct (fixed_names l lc)"
proof -
  have "distinct (fixed_names True True)" by code_simp
  moreover have "distinct (fixed_names True False)" by code_simp
  moreover have "distinct (fixed_names False True)" by code_simp
  moreover have "distinct (fixed_names False False)" by code_simp
  ultimately show ?thesis by (cases l; cases lc) auto
qed

lemma front_proxy_names:
  "FRONT_PROXY \<noteq> PROXY_GROUPS_SELECT" "FRONT_PROXY \<noteq> PROXY_GROUPS_MANUAL"
  by (simp_all add: FRONT_PROXY_def PROXY_GROUPS_SELECT_def PROXY_GROUPS_MANUAL_def)

lemma members_front:
  "members (buildProxyGroups True cs cpg lc dp dpd ds df) FRONT_PROXY =
     Some (filter (\<lambda>n. n \<noteq> PROXY_GROUPS_LANDING \<and> n \<noteq> PROXY_GROUPS_FALLBACK) ds)"
  unfolding buildProxyGroups_def Let_def members_def
  by (simp add: front_proxy_names[symmetric])

lemma members_select:
  "members (buildProxyGroups l cs cpg lc dp dpd ds df) PROXY_GROUPS_SELECT = Some ds"
  unfolding buildProxyGroups_def Let_def members_def
  by simp

lemma find_append: "find P (xs @ ys) = (case find P xs of None \<Rightarrow> find P ys | Some x \<Rightarrow> Some x)"
  by (induction xs) auto

lemma members_append:
  "members gs n = Some ms \<Longrightarrow> members (gs @ hs) n = Some ms"
  by (auto simp: members_def find_append split: option.splits)

lemma names_country_groups:
  "map g_name (buildCountryProxyGroups cs l lb) =
     map (\<lambda>c. c @ NODE_SUFFIX) (filter (\<lambda>c. countriesMeta_at c \<noteq> Missing) cs)"
  by (induction cs) (auto simp: Let_def)

lemma contains_prefix: "contains sub (sub @ t)"
proof -
  have "starts_with sub (sub @ t)" by (simp add: starts_with_def)
  then show ?thesis by (cases "sub @ t") auto
qed

lemma contains_append: "contains sub t \<Longrightarrow> contains sub (p @ t)"
  by (induction p) auto

lemma contains_self: "contains sub sub"
  using contains_prefix[of sub "[]"] by simp

lemma landing_not_in_base: "\<not> contains landingExcludeFilter baseExcludeFilter"
  by code_simp

lemma exclude_filter_contains:
  "contains baseExcludeFilter
     (if l then landingExcludeFilter @ asc ''|'' @ baseExcludeFilter else baseExcludeFilter)"
  "contains landingExcludeFilter
     (if l then landingExcludeFilter @ asc ''|'' @ baseExcludeFilter else baseExcludeFilter) \<longleftrightarrow> l"
  using contains_append[where sub = baseExcludeFilter and t = baseExcludeFilter
      and p = "landingExcludeFilter @ asc ''|''"]
    contains_prefix[of landingExcludeFilter "asc ''|'' @ baseExcludeFilter"] landing_not_in_base
  by (auto simp: contains_self)

lemma pool_types: "asc ''load-balance'' \<noteq> asc ''url-test''"
  by (simp add: asc_def)

lemma countriesMeta_at_key:
  "c \<in> fst ` set countriesMeta \<Longrightarrow> \<exists>m. map_of countriesMeta c = Some m \<and> countriesMeta_at c = Entry m"
proof -
  assume "c \<in> fst ` set countriesMeta"
  then have "map_of countriesMeta c \<noteq> None" by (simp add: map_of_eq_None_iff)
  then show ?thesis by (auto simp: countriesMeta_at_def)
qed

lemma region_pool_fields:
  assumes "g \<in> set (buildCountryProxyGroups cs l lb)" and "set cs \<subseteq> fst ` set countriesMeta"
  shows "\<exists>c m. c \<in> set cs \<and> map_of countriesMeta c = Some m
     \<and> g_name g = c @ NODE_SUFFIX
     \<and> g_icon g = Some (icon m)
     \<and> g_filter g = Some (pattern m)
     \<and> g_type g = (if lb then asc ''load-balance'' else asc ''url-test'')
     \<and> g_exclude_filter g =
         Some (if l then landingExcludeFilter @ asc ''|'' @ baseExcludeFilter else baseExcludeFilter)
     \<and> (\<not> lb \<longrightarrow> g_url g = Some (asc ''https://cp.cloudflare.com/generate_204'')
           \<and> g_interval g = Some 60 \<and> g_tolerance g = Some 20 \<and> g_lazy g = Some False)"
  using assms
proof (induction cs)
  case Nil
  then show ?case by simp
next
  case (Cons c cs)
  from Cons.prems(2) have "c \<in> fst ` set countriesMeta" by simp
  from countriesMeta_at_key[OF this] obtain m where
    m: "map_of countriesMeta c = Some m" "countriesMeta_at c = Entry m" by blast
  from Cons.prems(1) m(2) consider
    (hd) "g_name g = c @ NODE_SUFFIX" "g_icon g = Some (icon m)" "g_filter g = Some (pattern m)"
      "g_type g = (if lb then asc ''load-balance'' else asc ''url-test'')"
      "g_exclude_filter g =
         Some (if l then landingExcludeFilter @ asc ''|'' @ baseExcludeFilter else baseExcludeFilter)"
      "\<not> lb \<longrightarrow> g_url g = Some (asc ''https://cp.cloudflare.com/generate_204'')
           \<and> g_interval g = Some 60 \<and> g_tolerance g = Some 20 \<and> g_lazy g = Some False"
    | (tl) "g \<in> set (buildCountryProxyGroups cs l lb)"
    by (cases lb) (auto simp: Let_def)
  then show ?case
  proof cases
    case hd
    show ?thesis
      apply (rule exI[of _ c], rule exI[of _ m])
      using m(1) hd by simp
  next
    case tl
    from Cons.prems(2) have "set cs \<subseteq> fst ` set countriesMeta" by simp
    from Cons.IH[OF tl this] show ?thesis by auto
  qed
qed

text \<open>
  Under an inherited name, \<open>buildCountryProxyGroups\<close> gives a group that has no filter and
  no icon.
\<close>

lemma inherited_member_pool:
  "map (\<lambda>g. (g_name g, g_icon g, g_filter g)) (buildCountryProxyGroups [asc ''constructor''] l lb)
     = [(asc ''constructor'' @ NODE_SUFFIX, None, None)]"
proof -
  have "countriesMeta_at (asc ''constructor'') = Inherited" by code_simp
  then show ?thesis by (simp add: Let_def)
qed

subsection \<open>Rules\<close>


subsection \<open>The entry point\<close>

lemma main_groups:
  "r_proxy_groups (fst (main fl ms cfg)) =
     main_proxyGroups fl cfg @
     [(group GLOBAL
         (asc ''https://gcore.jsdelivr.net/gh/Koolson/Qure@master/IconSet/Color/Global.png'')
         (asc ''select''))
       \<lparr>g_include_all := Some True, g_proxies := Some (map g_name (main_proxyGroups fl cfg))\<rparr>]"
  by (simp add: main_def main_proxyGroups_def Let_def split_beta)

lemma loaded_init: "loaded fl (module_init fl)"
  by (simp add: loaded_def module_init_def array_read_def)

lemma buildRules_loaded:
  assumes "loaded fl ms"
  shows "fst (buildRules ms q) = (if q then baseRules else QUIC_REJECT # baseRules)"
    and "loaded fl (snd (buildRules ms q))"
  using assms
  by (auto simp: buildRules_def array_copy_def array_unshift_def array_read_def loaded_def)

text \<open>
  The copy is what keeps the module's array: \<open>unshift\<close> on \<open>baseRules\<close> itself leaves a state
  in which the array has one entry more.
\<close>

lemma unshift_writes:
  "array_read (array_unshift ms baseRules_ref v) baseRules_ref = v # array_read ms baseRules_ref"
  by (simp add: array_unshift_def array_read_def)

lemma main_allocates: "ms_next (snd (main fl ms cfg)) = Suc (ms_next ms)"
  by (simp add: main_def Let_def split_beta buildRules_def array_copy_def array_unshift_def)

lemma main_loaded: "loaded fl ms \<Longrightarrow> loaded fl (snd (main fl ms cfg))"
  using buildRules_loaded(2)[of fl ms "quicEnabled fl"]
  by (simp add: main_def Let_def split_beta)

lemma main_fields:
  "r_proxies (fst (main fl ms cfg)) = proxies cfg"
  "r_rule_providers (fst (main fl ms cfg)) = ms_ruleProviders (snd (buildRules ms (quicEnabled fl)))"
  "r_sniffer (fst (main fl ms cfg)) = ms_snifferConfig (snd (buildRules ms (quicEnabled fl)))"
  "r_dns (fst (main fl ms cfg)) =
     (if fakeIPEnabled fl then ms_dnsConfigFakeIp (snd (buildRules ms (quicEnabled fl)))
      else ms_dnsConfig (snd (buildRules ms (quicEnabled fl))))"
  "r_geodata_mode (fst (main fl ms cfg))"
  "r_geox_url (fst (main fl ms cfg)) = ms_geoxURL (snd (buildRules ms (quicEnabled fl)))"
  by (simp_all add: main_def Let_def split_beta)

lemma main_full:
  "r_full (fst (main fl ms cfg)) = r_full (fst (main fl ms' cfg'))"
  by (simp add: main_def Let_def split_beta)

lemma main_loaded_result:
  assumes "loaded fl ms" and "loaded fl ms'"
  shows "fst (main fl ms cfg) = fst (main fl ms' cfg)"
proof -
  have a: "fst (buildRules ms (quicEnabled fl)) = fst (buildRules ms' (quicEnabled fl))"
    using buildRules_loaded(1)[OF assms(1)] buildRules_loaded(1)[OF assms(2)] by simp
  have b: "loaded fl (snd (buildRules ms (quicEnabled fl)))"
    "loaded fl (snd (buildRules ms' (quicEnabled fl)))"
    using buildRules_loaded(2)[OF assms(1)] buildRules_loaded(2)[OF assms(2)] by simp_all
  show ?thesis
    using a b by (simp add: main_def Let_def split_beta loaded_def)
qed

lemma main_rules: "r_rules (fst (main fl ms cfg)) = fst (buildRules ms (quicEnabled fl))"
  by (simp add: main_def Let_def split_beta)

lemma main_proxies:
  "proxies cfg = proxies cfg' \<Longrightarrow> fst (main fl ms cfg) = fst (main fl ms cfg')"
  by (simp add: main_def)

lemma run_all_eq:
  "loaded fl ms \<Longrightarrow>
     fst (run_all fl ms cfgs) = map (\<lambda>cfg. fst (main fl (module_init fl) cfg)) cfgs
     \<and> loaded fl (snd (run_all fl ms cfgs))"
proof (induction cfgs arbitrary: ms)
  case Nil
  then show ?case by simp
next
  case (Cons cfg cfgs)
  obtain r ms' where m: "main fl ms cfg = (r, ms')" by (cases "main fl ms cfg")
  from main_loaded[OF Cons.prems, of cfg] m have l': "loaded fl ms'" by simp
  from main_loaded_result[OF Cons.prems loaded_init, of cfg] m
  have r: "r = fst (main fl (module_init fl) cfg)" by simp
  obtain rs ms'' where rs: "run_all fl ms' cfgs = (rs, ms'')" by (cases "run_all fl ms' cfgs")
  from Cons.IH[OF l'] rs have "rs = map (\<lambda>cfg. fst (main fl (module_init fl) cfg)) cfgs"
    "loaded fl ms''" by simp_all
  with m rs r show ?case by simp
qed

lemma main_proxyGroups_names:
  "map g_name (main_proxyGroups fl cfg) =
     fixed_names (landing fl) (hasLowCost cfg) @
     map (\<lambda>c. c @ NODE_SUFFIX) (filter (\<lambda>c. countriesMeta_at c \<noteq> Missing) (main_countries fl cfg))"
  by (simp add: main_proxyGroups_def Let_def names_buildProxyGroups names_country_groups
      parseCountries_proxies hasLowCost_proxies main_countries_def)

lemma GLOBAL_not_suffixed: "GLOBAL \<noteq> c @ NODE_SUFFIX"
proof
  assume "GLOBAL = c @ NODE_SUFFIX"
  then have "last GLOBAL = last (c @ NODE_SUFFIX)" by simp
  then show False by (simp add: GLOBAL_def NODE_SUFFIX_def asc_def)
qed

lemma GLOBAL_not_built: "GLOBAL \<notin> set (map g_name (main_proxyGroups fl cfg))"
  using GLOBAL_not_fixed GLOBAL_not_suffixed
  by (auto simp: main_proxyGroups_names)

lemma below_threshold_not_passed:
  assumes "int (region_count (parseCountries cfg) c) < countryThreshold fl"
  shows "c \<notin> set (main_countries fl cfg)"
proof
  assume "c \<in> set (main_countries fl cfg)"
  then obtain i where i: "i \<in> set (parseCountries cfg)" "country i = c"
      "int (count i) \<ge> countryThreshold fl"
    by (auto simp: main_countries_def strip_names)
  from region_count_member[OF parseCountries_distinct i(1)] i(2)
  have "region_count (parseCountries cfg) c = count i" by simp
  with i(3) assms show False by simp
qed

text \<open>The names that \<open>main\<close> passes to \<open>buildCountryProxyGroups\<close> are keys of the catalog.\<close>

lemma main_countries_catalog: "set (main_countries fl cfg) \<subseteq> fst ` set countriesMeta"
  using parseCountries_keys[of cfg] by (auto simp: main_countries_def strip_names)

lemma main_countries_distinct: "distinct (main_countries fl cfg)"
  using parseCountries_distinct[of cfg]
  by (simp add: main_countries_def strip_names distinct_map_filter)

text \<open>No two groups of the result bear the same name.\<close>

lemma main_names_distinct: "distinct (map g_name (r_proxy_groups (fst (main fl ms cfg))))"
proof -
  let ?cs = "filter (\<lambda>c. countriesMeta_at c \<noteq> Missing) (main_countries fl cfg)"
  have inj: "inj_on (\<lambda>c. c @ NODE_SUFFIX) (set ?cs)" by (simp add: inj_on_def)
  have d: "distinct (map (\<lambda>c. c @ NODE_SUFFIX) ?cs)"
    using main_countries_distinct[of fl cfg] inj by (simp add: distinct_map)
  have x: "set (fixed_names (landing fl) (hasLowCost cfg)) \<inter> set (map (\<lambda>c. c @ NODE_SUFFIX) ?cs) = {}"
  proof -
    have "c @ NODE_SUFFIX \<notin> set (fixed_names (landing fl) (hasLowCost cfg))" if "c \<in> set ?cs" for c
    proof -
      from that main_countries_catalog[of fl cfg] have "c \<in> fst ` set countriesMeta" by auto
      then show ?thesis by (rule catalog_not_fixed)
    qed
    then show ?thesis by auto
  qed
  have "distinct (map g_name (main_proxyGroups fl cfg))"
    using fixed_names_distinct d x by (simp add: main_proxyGroups_names)
  then show ?thesis
    using GLOBAL_not_built[of fl cfg] by (simp add: main_groups)
qed

text \<open>The region pools of the result are the groups built from the names that \<open>main\<close> passes.\<close>

lemma main_pools:
  "\<exists>fixed. main_proxyGroups fl cfg =
     fixed @ buildCountryProxyGroups (main_countries fl cfg) (landing fl) (loadBalance fl)"
  unfolding main_proxyGroups_def Let_def parseCountries_proxies main_countries_def
    buildProxyGroups_def filter_Boolean_append filter_Boolean_map_Some
  by blast

section \<open>The claims\<close>

subsection \<open>The front-proxy group\<close>

text \<open>
  Claim C1. When the landing flag is set, the result of \<open>main\<close> has a group named
  \<open>FRONT_PROXY\<close>, and the members of that group are the members of the top-level selector
  group (the list \<open>defaultSelector\<close>) without the names of the landing group and of the
  fallback group, in the same order; neither of the two names is among them. The same holds
  for \<open>buildProxyGroups\<close> with any selector list \<open>ds\<close>.
\<close>

theorem front_proxy_members:
  "landing fl \<Longrightarrow>
     members (r_proxy_groups (fst (main fl ms cfg))) PROXY_GROUPS_SELECT
       = Some (main_defaultSelector fl cfg)
     \<and> (\<exists>xs. members (r_proxy_groups (fst (main fl ms cfg))) FRONT_PROXY = Some xs
            \<and> xs = filter (\<lambda>n. n \<noteq> PROXY_GROUPS_LANDING \<and> n \<noteq> PROXY_GROUPS_FALLBACK)
                      (main_defaultSelector fl cfg)
            \<and> PROXY_GROUPS_LANDING \<notin> set xs
            \<and> PROXY_GROUPS_FALLBACK \<notin> set xs)
     \<and> members (buildProxyGroups True cs cpg lc dp dpd ds df) FRONT_PROXY
       = Some (filter (\<lambda>n. n \<noteq> PROXY_GROUPS_LANDING \<and> n \<noteq> PROXY_GROUPS_FALLBACK) ds)"
proof -
  assume l: "landing fl"
  have s: "members (main_proxyGroups fl cfg) PROXY_GROUPS_SELECT = Some (main_defaultSelector fl cfg)"
    by (simp add: main_proxyGroups_def Let_def members_select main_defaultSelector_def
        parseCountries_proxies hasLowCost_proxies)
  have f: "members (main_proxyGroups fl cfg) FRONT_PROXY
       = Some (filter (\<lambda>n. n \<noteq> PROXY_GROUPS_LANDING \<and> n \<noteq> PROXY_GROUPS_FALLBACK)
                (main_defaultSelector fl cfg))"
    using l by (simp add: main_proxyGroups_def Let_def members_front main_defaultSelector_def
        parseCountries_proxies hasLowCost_proxies)
  show ?thesis
    using members_append[OF s] members_append[OF f] members_front[of cs cpg lc dp dpd ds df]
    by (simp add: main_groups)
qed

theorem front_proxy_members_witness:
  "landing fl_landing
   \<and> members (r_proxy_groups (fst (main fl_landing (module_init fl_landing) scenario))) FRONT_PROXY
       = Some [[0x7F8E, 0x56FD] @ NODE_SUFFIX, PROXY_GROUPS_LOW_COST, PROXY_GROUPS_MANUAL,
               asc ''DIRECT'']
   \<and> main_defaultSelector fl_landing scenario
       = [PROXY_GROUPS_FALLBACK, PROXY_GROUPS_LANDING, [0x7F8E, 0x56FD] @ NODE_SUFFIX,
          PROXY_GROUPS_LOW_COST, PROXY_GROUPS_MANUAL, asc ''DIRECT'']"
proof -
  have l: "landing fl_landing" by (simp add: fl_landing_def)
  have d: "main_defaultSelector fl_landing scenario
       = [PROXY_GROUPS_FALLBACK, PROXY_GROUPS_LANDING, [0x7F8E, 0x56FD] @ NODE_SUFFIX,
          PROXY_GROUPS_LOW_COST, PROXY_GROUPS_MANUAL, asc ''DIRECT'']"
    by code_simp
  have n: "[0x7F8E, 0x56FD] @ NODE_SUFFIX \<noteq> PROXY_GROUPS_LANDING"
    "[0x7F8E, 0x56FD] @ NODE_SUFFIX \<noteq> PROXY_GROUPS_FALLBACK"
    "PROXY_GROUPS_LOW_COST \<noteq> PROXY_GROUPS_LANDING" "PROXY_GROUPS_LOW_COST \<noteq> PROXY_GROUPS_FALLBACK"
    "PROXY_GROUPS_MANUAL \<noteq> PROXY_GROUPS_LANDING" "PROXY_GROUPS_MANUAL \<noteq> PROXY_GROUPS_FALLBACK"
    "asc ''DIRECT'' \<noteq> PROXY_GROUPS_LANDING" "asc ''DIRECT'' \<noteq> PROXY_GROUPS_FALLBACK"
    by code_simp+
  from front_proxy_members[OF l, where ms = "module_init fl_landing" and cfg = scenario
      and cs = "[]" and cpg = "[]" and lc = False and dp = "[]" and dpd = "[]" and ds = "[]" and df = "[]"]
  obtain xs where
    x: "members (r_proxy_groups (fst (main fl_landing (module_init fl_landing) scenario))) FRONT_PROXY
          = Some xs"
      "xs = filter (\<lambda>n. n \<noteq> PROXY_GROUPS_LANDING \<and> n \<noteq> PROXY_GROUPS_FALLBACK)
              (main_defaultSelector fl_landing scenario)"
    by blast
  have "xs = [[0x7F8E, 0x56FD] @ NODE_SUFFIX, PROXY_GROUPS_LOW_COST, PROXY_GROUPS_MANUAL,
              asc ''DIRECT'']"
    unfolding x(2) d using n by simp
  with x(1) l d show ?thesis by blast
qed

subsection \<open>The group GLOBAL\<close>

text \<open>
  Claim C2. The list of groups in the result of \<open>main\<close> is never empty, its last group is
  named \<open>GLOBAL\<close>, the members of that group are the names of all groups before it, in
  their order, and \<open>GLOBAL\<close> is not one of these names: exactly one group bears the name.
\<close>

theorem global_group_last:
  "r_proxy_groups (fst (main fl ms cfg)) \<noteq> []
   \<and> g_name (last (r_proxy_groups (fst (main fl ms cfg)))) = GLOBAL
   \<and> g_proxies (last (r_proxy_groups (fst (main fl ms cfg))))
       = Some (map g_name (butlast (r_proxy_groups (fst (main fl ms cfg)))))
   \<and> GLOBAL \<notin> set (map g_name (butlast (r_proxy_groups (fst (main fl ms cfg)))))
   \<and> length (filter (\<lambda>g. g_name g = GLOBAL) (r_proxy_groups (fst (main fl ms cfg)))) = 1"
proof -
  have "filter (\<lambda>g. g_name g = GLOBAL) (main_proxyGroups fl cfg) = []"
    using GLOBAL_not_built[of fl cfg] by (force simp: filter_empty_conv)
  then show ?thesis
    using GLOBAL_not_built[of fl cfg] by (simp add: main_groups)
qed

theorem global_group_last_witness:
  "length (r_proxy_groups (fst (main fl_landing (module_init fl_landing) scenario))) = 36
   \<and> g_name (last (r_proxy_groups (fst (main fl_landing (module_init fl_landing) scenario))))
       = GLOBAL
   \<and> length (the (g_proxies
        (last (r_proxy_groups (fst (main fl_landing (module_init fl_landing) scenario)))))) = 35"
proof -
  have n: "length (r_proxy_groups (fst (main fl_landing (module_init fl_landing) scenario))) = 36"
    by code_simp
  from global_group_last[of fl_landing "module_init fl_landing" scenario] n
  show ?thesis by simp
qed

subsection \<open>First match wins\<close>

text \<open>
  Claim C3. For a proxy whose name has no keyword of \<open>ispRegex\<close>, one round of the loop adds
  one to the count of the first region, in the order of the catalog, whose expression matches
  the name and changes no other count, so the sum of all counts grows by at most one; when
  exactly one entry of the catalog matches, it is that region which is counted. Over the whole
  list, the count of a region is the number of proxies that are not skipped and whose first
  matching region it is. The compiled expressions stand in the order of the catalog.
\<close>

theorem classify_first_match:
  "(\<not> test ispRegex (name_or_empty p) \<longrightarrow>
      count_of (count_proxy cs p) c =
        count_of cs c + (if first_region (name_or_empty p) = Some c then 1 else 0)
      \<and> sum_list (map snd (count_proxy cs p)) \<le> sum_list (map snd cs) + 1)
   \<and> (\<not> test ispRegex (name_or_empty p)
        \<and> filter (\<lambda>(k, r). test r (name_or_empty p)) compiledRegex = [(k, r)] \<longrightarrow>
      count_proxy cs p = increment cs k)
   \<and> region_count (parseCountries cfg) c = length (filter (counted c) (proxies_or_empty cfg))
   \<and> map fst compiledRegex = map fst countriesMeta"
  using count_proxy_count_of[of p cs c] count_proxy_sum[of cs p] count_proxy_single[of p k r cs]
    region_count_parseCountries[of cfg c] catalog_order
  by blast

theorem classify_first_match_witness:
  "\<not> test ispRegex (name_or_empty HK_US)
   \<and> first_region (name_or_empty HK_US) = Some [0x9999, 0x6E2F]
   \<and> count_of (count_proxy [] HK_US) [0x9999, 0x6E2F] = 1
   \<and> count_of (count_proxy [] HK_US) [0x7F8E, 0x56FD] = 0
   \<and> \<not> test ispRegex (name_or_empty US_01)
   \<and> filter (\<lambda>(k, r). test r (name_or_empty US_01)) compiledRegex
       = [([0x7F8E, 0x56FD], newRegExp (pattern (the (map_of countriesMeta [0x7F8E, 0x56FD]))))]
   \<and> count_proxy [] US_01 = [([0x7F8E, 0x56FD], 1)]"
proof -
  have a: "\<not> test ispRegex (name_or_empty HK_US)" by code_simp
  have b: "first_region (name_or_empty HK_US) = Some [0x9999, 0x6E2F]" by code_simp
  have c: "\<not> test ispRegex (name_or_empty US_01)" by code_simp
  have d: "filter (\<lambda>(k, r). test r (name_or_empty US_01)) compiledRegex
       = [([0x7F8E, 0x56FD], newRegExp (pattern (the (map_of countriesMeta [0x7F8E, 0x56FD]))))]"
    by code_simp
  have e: "count_of [] c = 0" for c by (simp add: count_of_def)
  show ?thesis
    using a b c d e
      classify_first_match[where p = HK_US and cs = "[]" and c = "[0x9999, 0x6E2F]"
         and k = "[]" and r = "Regex False []" and cfg = "\<lparr>proxies = None\<rparr>"]
      classify_first_match[where p = HK_US and cs = "[]" and c = "[0x7F8E, 0x56FD]"
         and k = "[]" and r = "Regex False []" and cfg = "\<lparr>proxies = None\<rparr>"]
      classify_first_match[where p = US_01 and cs = "[]" and k = "[0x7F8E, 0x56FD]" and c = "[]"
         and r = "newRegExp (pattern (the (map_of countriesMeta [0x7F8E, 0x56FD])))"
         and cfg = "\<lparr>proxies = None\<rparr>"]
    by simp
qed

subsection \<open>Excluded proxies\<close>

text \<open>
  Claim C4. A proxy whose name has a keyword of \<open>ispRegex\<close> leaves every count as it was,
  whatever regions its name matches: the result of \<open>parseCountries\<close> is the same as for the
  list without these proxies. \<open>hasLowCost\<close> holds exactly when some proxy of the whole list,
  skipped or not, has a low-cost name. For a list that is missing or empty the result of
  \<open>parseCountries\<close> is empty and \<open>hasLowCost\<close> is false.
\<close>

theorem isp_excluded:
  "(test ispRegex (name_or_empty p) \<longrightarrow> count_proxy cs p = cs)
   \<and> parseCountries cfg =
       parseCountries (cfg\<lparr>proxies := Some (filter (\<lambda>p. \<not> test ispRegex (name_or_empty p))
                                             (proxies_or_empty cfg))\<rparr>)
   \<and> hasLowCost cfg = (\<exists>p \<in> set (proxies_or_empty cfg). test lowCostRegex (name_text p))
   \<and> (proxies cfg = None \<or> proxies cfg = Some [] \<longrightarrow> parseCountries cfg = [] \<and> \<not> hasLowCost cfg)"
proof -
  have 1: "test ispRegex (name_or_empty p) \<longrightarrow> count_proxy cs p = cs"
    by (simp add: count_proxy_skipped)
  have 2: "parseCountries cfg =
       parseCountries (cfg\<lparr>proxies := Some (filter (\<lambda>p. \<not> test ispRegex (name_or_empty p))
                                             (proxies_or_empty cfg))\<rparr>)"
    by (simp add: parseCountries_def proxies_or_empty_def count_proxies_filter)
  have 3: "hasLowCost cfg = (\<exists>p \<in> set (proxies_or_empty cfg). test lowCostRegex (name_text p))"
    by (simp add: hasLowCost_def list_ex_iff)
  have 4: "proxies cfg = None \<or> proxies cfg = Some [] \<longrightarrow> parseCountries cfg = [] \<and> \<not> hasLowCost cfg"
    by (auto simp: parseCountries_def hasLowCost_def proxies_or_empty_def)
  from 1 2 3 4 show ?thesis by blast
qed

theorem isp_excluded_witness:
  "test ispRegex (name_or_empty Starlink_US)
   \<and> count_proxy [] Starlink_US = []
   \<and> parseCountries \<lparr>proxies = Some [Starlink_US]\<rparr> = []
   \<and> hasLowCost \<lparr>proxies = Some [Starlink_US]\<rparr>
   \<and> parseCountries \<lparr>proxies = Some []\<rparr> = []
   \<and> \<not> hasLowCost \<lparr>proxies = Some []\<rparr>"
proof -
  have a: "test ispRegex (name_or_empty Starlink_US)" by code_simp
  have b: "test lowCostRegex (name_text Starlink_US)" by code_simp
  note one = isp_excluded[where p = Starlink_US and cs = "[]"
      and cfg = "\<lparr>proxies = Some [Starlink_US]\<rparr>"]
  note none = isp_excluded[where p = Starlink_US and cs = "[]"
      and cfg = "\<lparr>proxies = Some []\<rparr>"]
  have 1: "count_proxy [] Starlink_US = []"
    using a one by blast
  have 2: "hasLowCost \<lparr>proxies = Some [Starlink_US]\<rparr>"
    using b one by (simp add: proxies_or_empty_def)
  have 3: "parseCountries \<lparr>proxies = Some [Starlink_US]\<rparr> = parseCountries \<lparr>proxies = Some []\<rparr>"
    using a one by (simp add: proxies_or_empty_def)
  have 4: "parseCountries \<lparr>proxies = Some []\<rparr> = [] \<and> \<not> hasLowCost \<lparr>proxies = Some []\<rparr>"
  proof -
    have "proxies \<lparr>proxies = Some ([]::proxy list)\<rparr> = Some []" by simp
    with none show ?thesis by blast
  qed
  show ?thesis
    using a 1 2 3 4 by simp
qed

subsection \<open>Region pools\<close>

text \<open>
  Claim C5. Let the names given to \<open>buildCountryProxyGroups\<close> be regions, that is keys of
  the catalog. Then every group that it returns has the type \<open>load-balance\<close> when the
  load-balance flag is set and \<open>url-test\<close> otherwise; it is named after one of the regions and
  its filter is the pattern of that region; its exclude-filter contains the low-cost pattern,
  and contains the landing pattern exactly when the landing flag is set; a group of type
  \<open>url-test\<close> has the health-check address, the interval 60, the tolerance 20 and \<open>lazy\<close>
  false. The names that \<open>main\<close> passes are keys of the catalog, and the region pools of its
  result are the groups built from them with its two flags.
\<close>

theorem region_pool_shape:
  "g \<in> set (buildCountryProxyGroups cs l lb) \<Longrightarrow> set cs \<subseteq> fst ` set countriesMeta \<Longrightarrow>
     g_type g = (if lb then asc ''load-balance'' else asc ''url-test'')
     \<and> (\<exists>c m. c \<in> set cs \<and> map_of countriesMeta c = Some m
            \<and> g_name g = c @ NODE_SUFFIX \<and> g_filter g = Some (pattern m))
     \<and> (\<exists>ef. g_exclude_filter g = Some ef
            \<and> ef = (if l then landingExcludeFilter @ asc ''|'' @ baseExcludeFilter
                     else baseExcludeFilter)
            \<and> contains baseExcludeFilter ef
            \<and> (contains landingExcludeFilter ef \<longleftrightarrow> l))
     \<and> (g_type g = asc ''url-test'' \<longrightarrow>
            g_url g = Some (asc ''https://cp.cloudflare.com/generate_204'')
            \<and> g_interval g = Some 60 \<and> g_tolerance g = Some 20 \<and> g_lazy g = Some False)
     \<and> set (main_countries fl cfg) \<subseteq> fst ` set countriesMeta
     \<and> (\<exists>fixed. main_proxyGroups fl cfg =
           fixed @ buildCountryProxyGroups (main_countries fl cfg) (landing fl) (loadBalance fl))"
proof -
  assume "g \<in> set (buildCountryProxyGroups cs l lb)" and "set cs \<subseteq> fst ` set countriesMeta"
  from region_pool_fields[OF this] obtain c m where
    f: "c \<in> set cs" "map_of countriesMeta c = Some m" "g_name g = c @ NODE_SUFFIX"
      "g_filter g = Some (pattern m)"
      "g_type g = (if lb then asc ''load-balance'' else asc ''url-test'')"
      "g_exclude_filter g =
         Some (if l then landingExcludeFilter @ asc ''|'' @ baseExcludeFilter else baseExcludeFilter)"
      "\<not> lb \<longrightarrow> g_url g = Some (asc ''https://cp.cloudflare.com/generate_204'')
           \<and> g_interval g = Some 60 \<and> g_tolerance g = Some 20 \<and> g_lazy g = Some False"
    by blast
  have 1: "g_type g = (if lb then asc ''load-balance'' else asc ''url-test'')" by (rule f(5))
  have 2: "\<exists>c m. c \<in> set cs \<and> map_of countriesMeta c = Some m
            \<and> g_name g = c @ NODE_SUFFIX \<and> g_filter g = Some (pattern m)"
    using f(1-4) by blast
  have 3: "\<exists>ef. g_exclude_filter g = Some ef
            \<and> ef = (if l then landingExcludeFilter @ asc ''|'' @ baseExcludeFilter
                     else baseExcludeFilter)
            \<and> contains baseExcludeFilter ef
            \<and> (contains landingExcludeFilter ef \<longleftrightarrow> l)"
    using f(6) exclude_filter_contains[of l] by blast
  have 4: "g_type g = asc ''url-test'' \<longrightarrow>
            g_url g = Some (asc ''https://cp.cloudflare.com/generate_204'')
            \<and> g_interval g = Some 60 \<and> g_tolerance g = Some 20 \<and> g_lazy g = Some False"
    using f(5,7) pool_types by (cases lb) auto
  note 5 = main_countries_catalog[of fl cfg]
  note 6 = main_pools[of fl cfg]
  from 1 2 3 4 5 6 show ?thesis by blast
qed

theorem region_pool_shape_witness:
  "ex_pool \<in> set (buildCountryProxyGroups [[0x9999, 0x6E2F]] True False)
   \<and> set [[0x9999, 0x6E2F]] \<subseteq> fst ` set countriesMeta
   \<and> g_name ex_pool = [0x9999, 0x6E2F] @ NODE_SUFFIX
   \<and> g_type ex_pool = asc ''url-test''
   \<and> g_exclude_filter ex_pool = Some (landingExcludeFilter @ asc ''|'' @ baseExcludeFilter)
   \<and> g_url ex_pool = Some (asc ''https://cp.cloudflare.com/generate_204'')
   \<and> g_interval ex_pool = Some 60 \<and> g_tolerance ex_pool = Some 20 \<and> g_lazy ex_pool = Some False"
proof -
  have ne: "buildCountryProxyGroups [[0x9999, 0x6E2F]] True False \<noteq> []" by code_simp
  then have h: "ex_pool \<in> set (buildCountryProxyGroups [[0x9999, 0x6E2F]] True False)"
    by (simp add: ex_pool_def)
  have "list_ex (\<lambda>(c, m). c = [0x9999, 0x6E2F]) countriesMeta" by code_simp
  then have k: "set [[0x9999, 0x6E2F]] \<subseteq> fst ` set countriesMeta"
    by (force simp: list_ex_iff)
  from region_pool_shape[OF h k, where fl = fl_landing and cfg = scenario] h k
  show ?thesis by auto
qed

subsection \<open>The rule list\<close>



subsection \<open>The threshold\<close>

text \<open>
  Claim C7. For thresholds \<open>t1 \<le> t2\<close>, every group name that \<open>getCountryGroupNames\<close>
  yields for \<open>t2\<close> is among those it yields for \<open>t1\<close>.
\<close>

theorem threshold_antitone:
  "t1 \<le> t2 \<Longrightarrow>
   set (getCountryGroupNames countryInfo t2) \<subseteq> set (getCountryGroupNames countryInfo t1)"
  by (auto simp: getCountryGroupNames_def)

theorem threshold_antitone_witness:
  "(1::int) \<le> 2
   \<and> set (getCountryGroupNames
        [\<lparr>country = [0x9999, 0x6E2F], count = 1\<rparr>, \<lparr>country = [0x7F8E, 0x56FD], count = 2\<rparr>] 2)
     \<subseteq> set (getCountryGroupNames
        [\<lparr>country = [0x9999, 0x6E2F], count = 1\<rparr>, \<lparr>country = [0x7F8E, 0x56FD], count = 2\<rparr>] 1)
   \<and> getCountryGroupNames
        [\<lparr>country = [0x9999, 0x6E2F], count = 1\<rparr>, \<lparr>country = [0x7F8E, 0x56FD], count = 2\<rparr>] 2
       = [[0x7F8E, 0x56FD] @ NODE_SUFFIX]"
proof -
  have h: "(1::int) \<le> 2" by simp
  show ?thesis
    using h threshold_antitone[OF h,
      of "[\<lparr>country = [0x9999, 0x6E2F], count = 1\<rparr>, \<lparr>country = [0x7F8E, 0x56FD], count = 2\<rparr>]"]
    by (simp add: getCountryGroupNames_def)
qed

subsection \<open>Repeated runs\<close>

text \<open>
  Claim C8. Let the module state be as the script was loaded, or as any number of calls of
  \<open>main\<close> have left it. A call of \<open>main\<close> leaves the module-level bindings with what they
  held: the copy of the rule list is a new array, and the rule is put in front of the copy. Its
  result is the result of a first call after loading, so a second call with the same
  configuration gives the same result, and in any sequence of calls each result is what that
  call would give as the first one. The result depends on the configuration through \<open>proxies\<close>
  alone, and it is made of the flags, the proxies and the tables of the script: the proxies as
  given, the groups built from the classification followed by \<open>GLOBAL\<close>, the rule list of the
  flag \<open>quic\<close>, the rule providers, the sniffer settings, the DNS settings of the flag
  \<open>fakeip\<close> and the addresses of the geodata.
\<close>

theorem main_deterministic:
  "loaded fl ms \<Longrightarrow>
     loaded fl (snd (main fl ms cfg))
     \<and> fst (main fl ms cfg) = fst (main fl (module_init fl) cfg)
     \<and> fst (main fl (snd (main fl ms cfg)) cfg) = fst (main fl ms cfg)
     \<and> fst (run_all fl ms cfgs) = map (\<lambda>cfg. fst (main fl (module_init fl) cfg)) cfgs
     \<and> loaded fl (snd (run_all fl ms cfgs))
     \<and> (proxies cfg = proxies cfg' \<longrightarrow> fst (main fl ms cfg) = fst (main fl ms cfg'))
     \<and> r_proxies (fst (main fl ms cfg)) = proxies cfg
     \<and> r_proxy_groups (fst (main fl ms cfg)) =
         main_proxyGroups fl cfg @
         [(group GLOBAL
             (asc ''https://gcore.jsdelivr.net/gh/Koolson/Qure@master/IconSet/Color/Global.png'')
             (asc ''select''))
           \<lparr>g_include_all := Some True, g_proxies := Some (map g_name (main_proxyGroups fl cfg))\<rparr>]
     \<and> r_rules (fst (main fl ms cfg)) = (if quicEnabled fl then baseRules else QUIC_REJECT # baseRules)
     \<and> r_rule_providers (fst (main fl ms cfg)) = ruleProviders
     \<and> r_sniffer (fst (main fl ms cfg)) = snifferConfig
     \<and> r_dns (fst (main fl ms cfg)) =
         (if fakeIPEnabled fl then ms_dnsConfigFakeIp (module_init fl) else ms_dnsConfig (module_init fl))
     \<and> r_geodata_mode (fst (main fl ms cfg))
     \<and> r_geox_url (fst (main fl ms cfg)) = geoxURL"
proof -
  assume l: "loaded fl ms"
  have 1: "loaded fl (snd (main fl ms cfg))" by (rule main_loaded[OF l])
  have 2: "fst (main fl ms cfg) = fst (main fl (module_init fl) cfg)"
    by (rule main_loaded_result[OF l loaded_init])
  have 3: "fst (main fl (snd (main fl ms cfg)) cfg) = fst (main fl ms cfg)"
    by (rule main_loaded_result[OF 1 l])
  note 4 = run_all_eq[OF l, of cfgs]
  have 5: "proxies cfg = proxies cfg' \<longrightarrow> fst (main fl ms cfg) = fst (main fl ms cfg')"
    using main_proxies[of cfg cfg' fl ms] by blast
  have 6: "r_proxies (fst (main fl ms cfg)) = proxies cfg" by (rule main_fields(1))
  note 7 = main_groups[of fl ms cfg]
  have 8: "r_rules (fst (main fl ms cfg)) = (if quicEnabled fl then baseRules else QUIC_REJECT # baseRules)"
    using buildRules_loaded(1)[OF l, of "quicEnabled fl"] by (simp add: main_rules)
  have b: "loaded fl (snd (buildRules ms (quicEnabled fl)))" by (rule buildRules_loaded(2)[OF l])
  have 9: "r_rule_providers (fst (main fl ms cfg)) = ruleProviders"
    using b by (simp add: main_fields(2) loaded_def)
  have 10: "r_sniffer (fst (main fl ms cfg)) = snifferConfig"
    using b by (simp add: main_fields(3) loaded_def)
  have 11: "r_dns (fst (main fl ms cfg)) =
         (if fakeIPEnabled fl then ms_dnsConfigFakeIp (module_init fl) else ms_dnsConfig (module_init fl))"
    using b by (simp add: main_fields(4) loaded_def)
  have 12: "r_geodata_mode (fst (main fl ms cfg))" by (rule main_fields(5))
  have 13: "r_geox_url (fst (main fl ms cfg)) = geoxURL"
    using b by (simp add: main_fields(6) loaded_def)
  from 1 2 3 4 5 6 7 8 9 10 11 12 13 show ?thesis by blast
qed

theorem main_deterministic_witness:
  "loaded fl_landing (module_init fl_landing)
   \<and> proxies scenario = proxies (config.extend scenario True)
   \<and> fst (main fl_landing (module_init fl_landing) scenario)
       = fst (main fl_landing (module_init fl_landing) (config.extend scenario True))
   \<and> fst (run_all fl_landing (module_init fl_landing) [scenario, scenario])
       = [fst (main fl_landing (module_init fl_landing) scenario),
          fst (main fl_landing (module_init fl_landing) scenario)]
   \<and> loaded fl_landing (snd (run_all fl_landing (module_init fl_landing) [scenario, scenario]))
   \<and> ms_next (snd (main fl_landing (module_init fl_landing) scenario)) = 2
   \<and> r_rules (fst (main fl_landing (snd (main fl_landing (module_init fl_landing) scenario)) scenario))
       = QUIC_REJECT # baseRules"
proof -
  have l: "loaded fl_landing (module_init fl_landing)" by (rule loaded_init)
  have h: "proxies scenario = proxies (config.extend scenario True)"
    by (simp add: config.defs)
  have q: "quicEnabled fl_landing = False" by (simp add: fl_landing_def)
  have n: "ms_next (snd (main fl_landing (module_init fl_landing) scenario)) = 2"
    by (simp add: main_allocates module_init_def baseRules_ref_def)
  note first = main_deterministic[OF l, where cfg = scenario
      and cfg' = "config.extend scenario True" and cfgs = "[scenario, scenario]"]
  have l1: "loaded fl_landing (snd (main fl_landing (module_init fl_landing) scenario))"
    using first by blast
  note second = main_deterministic[OF l1, where cfg = scenario
      and cfg' = "config.extend scenario True" and cfgs = "[scenario, scenario]"]
  have "r_rules (fst (main fl_landing (snd (main fl_landing (module_init fl_landing) scenario)) scenario))
       = (if quicEnabled fl_landing then baseRules else QUIC_REJECT # baseRules)"
    using second by blast
  then have r: "r_rules (fst (main fl_landing (snd (main fl_landing (module_init fl_landing) scenario)) scenario))
       = QUIC_REJECT # baseRules"
    by (simp add: q)
  have e: "fst (main fl_landing (module_init fl_landing) scenario)
       = fst (main fl_landing (module_init fl_landing) (config.extend scenario True))"
    using first h by blast
  have "fst (run_all fl_landing (module_init fl_landing) [scenario, scenario])
       = map (\<lambda>cfg. fst (main fl_landing (module_init fl_landing) cfg)) [scenario, scenario]"
    using first by blast
  then have ra: "fst (run_all fl_landing (module_init fl_landing) [scenario, scenario])
       = [fst (main fl_landing (module_init fl_landing) scenario),
          fst (main fl_landing (module_init fl_landing) scenario)]"
    by simp
  have rl: "loaded fl_landing (snd (run_all fl_landing (module_init fl_landing) [scenario, scenario]))"
    using first by blast
  from l h e ra rl n r show ?thesis by blast
qed

subsection \<open>Regions below the threshold\<close>

text \<open>
  Claim C9. For a region whose count is positive and below the threshold, the region is not
  among the names that \<open>main\<close> passes to \<open>buildCountryProxyGroups\<close>, and no group of the
  result bears the name of its pool; the pools of the result are those built from the names
  that passed the threshold.
\<close>

theorem below_threshold_no_pool:
  "0 < region_count (parseCountries cfg) c \<Longrightarrow>
   int (region_count (parseCountries cfg) c) < countryThreshold fl \<Longrightarrow>
     c \<notin> set (main_countries fl cfg)
     \<and> c @ NODE_SUFFIX \<notin> g_name ` set (r_proxy_groups (fst (main fl ms cfg)))
     \<and> (\<exists>fixed. main_proxyGroups fl cfg =
           fixed @ buildCountryProxyGroups (main_countries fl cfg) (landing fl) (loadBalance fl))"
proof -
  assume pos: "0 < region_count (parseCountries cfg) c"
    and low: "int (region_count (parseCountries cfg) c) < countryThreshold fl"
  have cat: "c \<in> fst ` set countriesMeta"
    using region_count_pos[OF pos] parseCountries_keys[of cfg] by blast
  have 1: "c \<notin> set (main_countries fl cfg)"
    by (rule below_threshold_not_passed[OF low])
  have "c @ NODE_SUFFIX \<notin> set (map g_name (main_proxyGroups fl cfg))"
    using 1 catalog_not_fixed[OF cat] by (auto simp: main_proxyGroups_names)
  then have 2: "c @ NODE_SUFFIX \<notin> g_name ` set (r_proxy_groups (fst (main fl ms cfg)))"
    using GLOBAL_not_suffixed[of c] by (auto simp: main_groups)
  have 3: "\<exists>fixed. main_proxyGroups fl cfg =
           fixed @ buildCountryProxyGroups (main_countries fl cfg) (landing fl) (loadBalance fl)"
    unfolding main_proxyGroups_def Let_def parseCountries_proxies main_countries_def
      buildProxyGroups_def filter_Boolean_append filter_Boolean_map_Some
    by blast
  from 1 2 3 show ?thesis by blast
qed

theorem below_threshold_no_pool_witness:
  "0 < region_count (parseCountries scenario) [0x9999, 0x6E2F]
   \<and> int (region_count (parseCountries scenario) [0x9999, 0x6E2F]) < countryThreshold fl_landing
   \<and> [0x9999, 0x6E2F] \<notin> set (main_countries fl_landing scenario)
   \<and> [0x9999, 0x6E2F] @ NODE_SUFFIX
       \<notin> g_name ` set (r_proxy_groups (fst (main fl_landing (module_init fl_landing) scenario)))"
proof -
  have r: "region_count (parseCountries scenario) [0x9999, 0x6E2F] = 1" by code_simp
  have t: "countryThreshold fl_landing = 2" by (simp add: fl_landing_def)
  have a: "0 < region_count (parseCountries scenario) [0x9999, 0x6E2F]" using r by simp
  have b: "int (region_count (parseCountries scenario) [0x9999, 0x6E2F]) < countryThreshold fl_landing"
    using r t by simp
  from below_threshold_no_pool[OF a b, where ms = "module_init fl_landing"] a b
  show ?thesis by blast
qed

subsection \<open>Parsing a flag\<close>

text \<open>
  Claim C10. \<open>parseBool\<close> yields true exactly for the boolean true, for a string that reads
  \<open>true\<close> in any mix of upper and lower case, and for the string \<open>1\<close>. For a value that is
  neither a boolean nor a string, the number 1 among them, it yields false. Each flag that
  \<open>buildFeatureFlags\<close> sets is the value of \<open>parseBool\<close> on the argument under the key of
  that flag: it is on exactly for the three kinds of value above, and off for a value that is
  neither a boolean nor a string.
\<close>

theorem parseBool_enabled:
  "(parseBool v \<longleftrightarrow>
      v = JBool True \<or> (\<exists>s. v = JString s \<and> (true_any_case s \<or> s = asc ''1'')))
   \<and> (not_bool_or_string v \<longrightarrow> \<not> parseBool v)
   \<and> \<not> parseBool (JNumber 1)
   \<and> ((k, sel) \<in> set flag_table \<and> not_bool_or_string (args k) \<longrightarrow>
        \<not> sel (buildFeatureFlags args t))
   \<and> ((k, sel) \<in> set flag_table \<longrightarrow>
        sel (buildFeatureFlags args t) = parseBool (args k)
        \<and> (sel (buildFeatureFlags args t) \<longleftrightarrow>
             args k = JBool True
             \<or> (\<exists>s. args k = JString s \<and> (true_any_case s \<or> s = asc ''1''))))"
  using parseBool_iff[of v] parseBool_other[of v] parseBool_other[of "args k"]
    flags_parse[of k sel args t] parseBool_iff[of "args k"]
  by auto

theorem parseBool_enabled_witness:
  "not_bool_or_string (JNumber 1)
   \<and> \<not> parseBool (JNumber 1)
   \<and> (asc ''landing'', landing) \<in> set flag_table
   \<and> \<not> landing (buildFeatureFlags (\<lambda>k. JNumber 1) 0)
   \<and> parseBool (JString (asc ''TrUe''))
   \<and> \<not> parseBool (JString (asc ''yes''))
   \<and> landing (buildFeatureFlags (\<lambda>k. JString (asc ''TrUe'')) 0)
   \<and> \<not> landing (buildFeatureFlags (\<lambda>k. JString (asc ''yes'')) 0)"
proof -
  have a: "not_bool_or_string (JNumber 1)" by (simp add: not_bool_or_string_def)
  have b: "(asc ''landing'', landing) \<in> set flag_table" by (simp add: flag_table_def)
  have c: "true_any_case (asc ''TrUe'')" by (simp add: true_any_case_def asc_def)
  have d: "\<not> true_any_case (asc ''yes'')" "asc ''yes'' \<noteq> asc ''1''"
    by (simp_all add: true_any_case_def asc_def)
  note num = parseBool_enabled[where v = "JNumber 1" and k = "asc ''landing''" and sel = landing
        and args = "\<lambda>k. JNumber 1" and t = 0]
  note tru = parseBool_enabled[where v = "JString (asc ''TrUe'')" and k = "asc ''landing''"
        and sel = landing and args = "\<lambda>k. JString (asc ''TrUe'')" and t = 0]
  note yes = parseBool_enabled[where v = "JString (asc ''yes'')" and k = "asc ''landing''"
        and sel = landing and args = "\<lambda>k. JString (asc ''yes'')" and t = 0]
  have 1: "\<not> parseBool (JNumber 1)" using num by blast
  have 2: "\<not> landing (buildFeatureFlags (\<lambda>k. JNumber 1) 0)" using num a b by blast
  have 3: "parseBool (JString (asc ''TrUe''))" using tru c by blast
  have 4: "\<not> parseBool (JString (asc ''yes''))" using yes d by blast
  have 5: "landing (buildFeatureFlags (\<lambda>k. JString (asc ''TrUe'')) 0)" using tru b 3 by blast
  have 6: "\<not> landing (buildFeatureFlags (\<lambda>k. JString (asc ''yes'')) 0)" using yes b 4 by blast
  from a b 1 2 3 4 5 6 show ?thesis by blast
qed

end
